theory Spec2Isabelle
  imports Main
begin

section \<open>Python strings\<close>

text \<open>
  The two scripts \<^verbatim>\<open>.cursor/scripts/run_new_agent.py\<close> and
  \<^verbatim>\<open>.cursor/scripts/open_cursor_chat.py\<close> work on Python \<^verbatim>\<open>str\<close> values and on
  \<^verbatim>\<open>None\<close>. A \<^verbatim>\<open>str\<close> is a \<^typ>\<open>string\<close>, an optional one a \<^typ>\<open>string option\<close>.
  Definitions that come from \<^verbatim>\<open>open_cursor_chat.py\<close> carry the suffix \<open>_occ\<close>; the
  unsuffixed names are those of \<^verbatim>\<open>run_new_agent.py\<close>.
\<close>

definition backslash :: char where
  "backslash = CHR 0x5C"

definition dquote :: char where
  "dquote = CHR 0x22"

text \<open>Truth value of an optional string: \<^verbatim>\<open>None\<close> and \<^verbatim>\<open>""\<close> are false.\<close>

fun truthy :: "string option \<Rightarrow> bool" where
  "truthy None = False"
| "truthy (Some s) = (s \<noteq> [])"

text \<open>\<^verbatim>\<open>s.startswith(p)\<close>.\<close>

fun startswith :: "string \<Rightarrow> string \<Rightarrow> bool" where
  "startswith s [] = True"
| "startswith [] (p # ps) = False"
| "startswith (c # cs) (p # ps) = (c = p \<and> startswith cs ps)"

text \<open>\<^verbatim>\<open>p in s\<close> on strings: \<open>p\<close> occurs in \<open>s\<close> as a contiguous substring.\<close>

fun str_contains :: "string \<Rightarrow> string \<Rightarrow> bool" where
  "str_contains [] p = (p = [])"
| "str_contains (c # cs) p = (startswith (c # cs) p \<or> str_contains cs p)"

text \<open>
  \<^verbatim>\<open>s.replace(old, new)\<close>: the occurrences of \<open>old\<close> are found from the left and do not
  overlap. \<open>replace_scan\<close> is the scan for a non-empty \<open>old\<close>; for the empty pattern
  Python puts \<open>new\<close> before every character and at the end.
\<close>

function replace_scan :: "string \<Rightarrow> string \<Rightarrow> string \<Rightarrow> string" where
  "replace_scan old new s =
     (if s = [] \<or> old = [] then s
      else if startswith s old then new @ replace_scan old new (drop (length old) s)
      else hd s # replace_scan old new (tl s))"
  by pat_completeness auto
termination
  by (relation "measure (\<lambda>(old, new, s). length s)") auto

definition str_replace :: "string \<Rightarrow> string \<Rightarrow> string \<Rightarrow> string" where
  "str_replace s old new =
     (if old = [] then new @ concat (map (\<lambda>c. c # new) s) else replace_scan old new s)"

section \<open>Escaping for AppleScript\<close>

text \<open>
  \<^verbatim>\<open>return text.replace('\\', '\\\\').replace('"', '\\"')\<close>, in both scripts.
\<close>

definition escape_applescript_string :: "string \<Rightarrow> string" where
  "escape_applescript_string text =
     str_replace (str_replace text [backslash] [backslash, backslash])
       [dquote] [backslash, dquote]"

definition escape_applescript_string_occ :: "string \<Rightarrow> string" where
  "escape_applescript_string_occ text =
     str_replace (str_replace text [backslash] [backslash, backslash])
       [dquote] [backslash, dquote]"

text \<open>What the escaping does to one character, as the specification words it.\<close>

definition escape_char :: "char \<Rightarrow> string" where
  "escape_char c =
     (if c = backslash then [backslash, backslash]
      else if c = dquote then [backslash, dquote]
      else [c])"

section \<open>Prompt resolution\<close>

text \<open>
  The parsed command line of \<^verbatim>\<open>run_new_agent.py\<close>: each option is \<^verbatim>\<open>None\<close> when absent.
  \<^verbatim>\<open>argparse\<close> admits for \<^verbatim>\<open>--agent\<close> only the members of \<open>agent_choices\<close>; a path is
  kept as the string that \<^verbatim>\<open>str\<close> gives for it.
\<close>

record args =
  arg_agent :: "string option"
  arg_model :: "string option"
  arg_prompt :: "string option"
  arg_workspace :: "string option"

record args_occ =
  arg_prompt_occ :: "string option"
  arg_workspace_occ :: "string option"

definition agent_choices :: "string list" where
  "agent_choices = [''swe'', ''qa'', ''pm'', ''docs'']"

text \<open>
  The prompt that \<^verbatim>\<open>main\<close> of \<^verbatim>\<open>run_new_agent.py\<close> passes on (lines 213 to 222):
  \<^verbatim>\<open>prompt = args.prompt\<close>, replaced under \<^verbatim>\<open>if not prompt and args.agent\<close> by the
  string of the first matching \<^verbatim>\<open>elif\<close>.
\<close>

definition main_prompt :: "string option \<Rightarrow> string option \<Rightarrow> string option" where
  "main_prompt prompt agent =
     (if \<not> truthy prompt \<and> truthy agent then
        (if agent = Some ''swe'' then Some ''run swe agent''
         else if agent = Some ''qa'' then Some ''Use @.cursor/rules/qa-agent.mdc''
         else if agent = Some ''pm'' then Some ''Use @.cursor/rules/pm-agent.mdc''
         else if agent = Some ''docs'' then Some ''run docs agent''
         else prompt)
      else prompt)"

text \<open>A string names a rule-configuration file when it contains the path of the rules directory.\<close>

definition references_rule_file :: "string \<Rightarrow> bool" where
  "references_rule_file s = str_contains s ''.cursor/rules/''"

text \<open>An interpolated field \<^verbatim>\<open>{x}\<close> of an f-string.\<close>

fun fmt :: "string option \<Rightarrow> string" where
  "fmt None = ''None''"
| "fmt (Some s) = s"

text \<open>
  The effective prompt of \<^verbatim>\<open>open_cursor_chat_hybrid\<close> in \<^verbatim>\<open>run_new_agent.py\<close>
  (lines 46 to 50). In \<^verbatim>\<open>open_cursor_chat.py\<close> there is no model and the prompt is used
  as it comes.
\<close>

definition full_prompt :: "string option \<Rightarrow> string option \<Rightarrow> string option" where
  "full_prompt prompt model =
     (if truthy model \<and> truthy prompt then Some (fmt prompt @ '' (model: '' @ fmt model @ '')'')
      else if truthy model then Some (''(model: '' @ fmt model @ '')'')
      else prompt)"

section \<open>The host\<close>

text \<open>
  What the scripts see of the machine: \<^verbatim>\<open>sys.platform\<close>, the outcome of
  \<^verbatim>\<open>subprocess.run\<close> for each argument vector (a completed process with its return code and
  its standard error, or a raised exception), the outcome of \<^verbatim>\<open>Path.cwd()\<close>, and what the
  encoding of the standard output can encode. No argument vector is run twice in one
  dispatch, so a function of the vector covers every behaviour of the host. The exceptions
  are those that the \<^verbatim>\<open>except\<close> clauses tell apart, and the one that \<^verbatim>\<open>print\<close> raises;
  all are subclasses of \<^verbatim>\<open>Exception\<close>. \<^verbatim>\<open>time.sleep\<close> is taken not to raise.
\<close>

datatype exn = FileNotFoundError | TimeoutExpired | UnicodeEncodeError | OtherException

datatype completed = Completed (returncode: int) (stderr: string)

text \<open>
  The characters outside ASCII in the printed lines of the scripts: U+2705, U+26A0, U+FE0F,
  U+2192, U+1F4A1 and U+274C.
\<close>

datatype glyph =
    Check_mark
  | Warning_sign
  | Variation_selector
  | Right_arrow
  | Light_bulb
  | Cross_mark

record env =
  sys_platform :: string
  subprocess_run :: "string list \<Rightarrow> exn + completed"
  path_cwd :: "exn + string"
  stdout_encodes :: "glyph \<Rightarrow> bool"
  stdout_encodes_char :: "char \<Rightarrow> bool"

text \<open>
  One constructor for each \<^verbatim>\<open>print\<close> of the scripts, in the order of the source
  (\<^verbatim>\<open>run_new_agent.py\<close> lines 65, 87, 132, 134, 139 to 144, 146, 149, 151, 157, 159, 161,
  164 to 166); an argument is the interpolated value.
\<close>

datatype message =
    Opened_with_agent
  | Could_not_activate
  | Opened_new_chat
  | Prompt_line string
  | Accessibility_required
  | To_enable
  | Step_1
  | Step_2
  | Step_3
  | Alternatively
  | Then_paste string
  | AppleScript_failed string
  | AppleScript_raised exn
  | Opened_cursor
  | Press_for_chat
  | Press_and_paste string
  | Cli_not_found
  | Install_hint
  | Or_applescript

text \<open>The characters outside ASCII in the literal text of each line.\<close>

fun glyphs :: "message \<Rightarrow> glyph list" where
  "glyphs Opened_with_agent = [Check_mark]"
| "glyphs Could_not_activate = [Warning_sign, Variation_selector]"
| "glyphs Opened_new_chat = [Check_mark]"
| "glyphs (Prompt_line p) = []"
| "glyphs Accessibility_required = [Warning_sign, Variation_selector]"
| "glyphs To_enable = []"
| "glyphs Step_1 = [Right_arrow, Right_arrow]"
| "glyphs Step_2 = []"
| "glyphs Step_3 = []"
| "glyphs Alternatively = []"
| "glyphs (Then_paste p) = []"
| "glyphs (AppleScript_failed err) = [Warning_sign, Variation_selector]"
| "glyphs (AppleScript_raised x) = [Warning_sign, Variation_selector]"
| "glyphs Opened_cursor = [Check_mark]"
| "glyphs Press_for_chat = [Light_bulb]"
| "glyphs (Press_and_paste p) = [Light_bulb]"
| "glyphs Cli_not_found = [Cross_mark]"
| "glyphs Install_hint = []"
| "glyphs Or_applescript = []"

text \<open>
  The interpolated string of a line: a prompt or the error output of \<^verbatim>\<open>osascript\<close>. The
  text of an exception is taken to be ASCII.
\<close>

fun interpolated :: "message \<Rightarrow> string" where
  "interpolated (Prompt_line p) = p"
| "interpolated (Then_paste p) = p"
| "interpolated (AppleScript_failed err) = err"
| "interpolated (Press_and_paste p) = p"
| "interpolated m = []"

text \<open>
  \<^verbatim>\<open>print\<close> writes a line when the encoding of the standard output has every character of
  it, and raises \<^verbatim>\<open>UnicodeEncodeError\<close> otherwise, writing nothing. The ASCII characters of
  the literal text are in every encoding.
\<close>

definition printable :: "env \<Rightarrow> message \<Rightarrow> bool" where
  "printable e m =
     (list_all (stdout_encodes e) (glyphs m)
      \<and> list_all (stdout_encodes_char e) (interpolated m))"

text \<open>What a run of the dispatcher does, in order: commands started, the pause, lines written.\<close>

datatype event = Run "string list" | Sleep | Print message

type_synonym trace = "event list"

fun commands :: "trace \<Rightarrow> string list list" where
  "commands [] = []"
| "commands (Run cmd # evs) = cmd # commands evs"
| "commands (Sleep # evs) = commands evs"
| "commands (Print m # evs) = commands evs"

text \<open>
  Consecutive calls of \<^verbatim>\<open>print\<close>: the lines written, up to the first line that cannot be
  encoded. That line raises, and the later ones are not reached; all are written exactly
  when \<open>list_all (printable e)\<close> holds of them.
\<close>

fun printed :: "env \<Rightarrow> message list \<Rightarrow> trace" where
  "printed e [] = []"
| "printed e (m # ms) = (if printable e m then Print m # printed e ms else [])"

section \<open>The AppleScript texts\<close>

definition activate_script :: string where
  \<open>activate_script = ''tell application "Cursor" to activate''\<close>

text \<open>A triple-quoted literal: a line break, the lines, and the indentation of the closing quotes.\<close>

definition triple_quoted :: "string list \<Rightarrow> string" where
  "triple_quoted ls = ''\<newline>'' @ concat (map (\<lambda>l. l @ ''\<newline>'') ls) @ ''                ''"

definition chat_script_prompt :: "string \<Rightarrow> string" where
  \<open>chat_script_prompt escaped_prompt = triple_quoted [
        ''                tell application "System Events"'',
        ''                    tell process "Cursor"'',
        ''                        -- Open new chat tab'',
        ''                        keystroke "t" using command down'',
        ''                        delay 1.0'',
        ''                        -- Type the prompt'',
        ''                        keystroke "'' @ escaped_prompt @ ''"'',
        ''                        delay 0.5'',
        ''                        -- Submit (Enter)'',
        ''                        key code 36'',
        ''                    end tell'',
        ''                end tell'']\<close>

definition chat_script_prompt_occ :: "string \<Rightarrow> string" where
  \<open>chat_script_prompt_occ escaped_prompt = triple_quoted [
        ''                tell application "System Events"'',
        ''                    tell process "Cursor"'',
        ''                        keystroke "t" using command down'',
        ''                        delay 0.5'',
        ''                        keystroke "'' @ escaped_prompt @ ''"'',
        ''                        delay 0.2'',
        ''                        key code 36'',
        ''                    end tell'',
        ''                end tell'']\<close>

text \<open>The text without a prompt is the same in both scripts.\<close>

definition chat_script_plain :: string where
  \<open>chat_script_plain = triple_quoted [
        ''                tell application "System Events"'',
        ''                    tell process "Cursor"'',
        ''                        keystroke "t" using command down'',
        ''                    end tell'',
        ''                end tell'']\<close>

definition chat_script :: "string option \<Rightarrow> string" where
  "chat_script fp =
     (if truthy fp then chat_script_prompt (escape_applescript_string (fmt fp))
      else chat_script_plain)"

definition chat_script_occ :: "string option \<Rightarrow> string" where
  "chat_script_occ prompt =
     (if truthy prompt then chat_script_prompt_occ (escape_applescript_string_occ (fmt prompt))
      else chat_script_plain)"

section \<open>The dispatcher\<close>

text \<open>
  \<^verbatim>\<open>open_cursor_chat_hybrid\<close> is three blocks in a row, each of which may return. Every block
  is a function to the events it causes and to what it decides; the dispatcher chains them.
\<close>

text \<open>
  First block of \<^verbatim>\<open>run_new_agent.py\<close> (lines 52 to 72): under \<^verbatim>\<open>if full_prompt\<close> the
  command \<^verbatim>\<open>cursor-agent\<close> is run; when the return code is zero the success line is printed
  and the function returns \<^verbatim>\<open>True\<close> (second component). The \<^verbatim>\<open>print\<close> stands inside the
  \<^verbatim>\<open>try\<close>: every exception, that of the \<^verbatim>\<open>print\<close> too, is passed over by
  \<^verbatim>\<open>except Exception: pass\<close>.
\<close>

definition agent_cmd :: "string option \<Rightarrow> string option \<Rightarrow> string list" where
  "agent_cmd fp model =
     [''cursor-agent'', ''-p'', fmt fp] @ (if truthy model then [''-m'', fmt model] else [])"

definition cursor_agent_state :: "env \<Rightarrow> string option \<Rightarrow> string option \<Rightarrow> trace \<times> bool" where
  "cursor_agent_state e fp model =
     (if truthy fp then
        (case subprocess_run e (agent_cmd fp model) of
           Inr result \<Rightarrow>
             if returncode result = 0
             then (if printable e Opened_with_agent
                   then ([Run (agent_cmd fp model), Print Opened_with_agent], True)
                   else ([Run (agent_cmd fp model)], False))
             else ([Run (agent_cmd fp model)], False)
         | Inl x \<Rightarrow> ([Run (agent_cmd fp model)], False))
      else ([], False))"

text \<open>First block of \<^verbatim>\<open>open_cursor_chat.py\<close> (lines 42 to 59): no model flag.\<close>

definition agent_cmd_occ :: "string option \<Rightarrow> string list" where
  "agent_cmd_occ prompt = [''cursor-agent'', ''-p'', fmt prompt]"

definition cursor_agent_state_occ :: "env \<Rightarrow> string option \<Rightarrow> trace \<times> bool" where
  "cursor_agent_state_occ e prompt =
     (if truthy prompt then
        (case subprocess_run e (agent_cmd_occ prompt) of
           Inr result \<Rightarrow>
             if returncode result = 0
             then (if printable e Opened_with_agent
                   then ([Run (agent_cmd_occ prompt), Print Opened_with_agent], True)
                   else ([Run (agent_cmd_occ prompt)], False))
             else ([Run (agent_cmd_occ prompt)], False)
         | Inl x \<Rightarrow> ([Run (agent_cmd_occ prompt)], False))
      else ([], False))"

text \<open>
  Second block (lines 75 to 151 of \<^verbatim>\<open>run_new_agent.py\<close>, 62 to 134 of
  \<^verbatim>\<open>open_cursor_chat.py\<close>; the two differ in the text of the chat script only, which is
  the argument \<open>script\<close>).

  \<open>applescript_try\<close> is the body of the \<^verbatim>\<open>try\<close>: \<open>Inl x\<close> when \<open>x\<close> is raised in it, by
  \<^verbatim>\<open>osascript\<close> or by a \<^verbatim>\<open>print\<close>; \<open>Inr (Some b)\<close> when it returns \<open>b\<close>; \<open>Inr None\<close> when
  it runs to its end.
\<close>

definition activate_cmd :: "string list" where
  "activate_cmd = [''osascript'', ''-e'', activate_script]"

definition chat_cmd :: "string \<Rightarrow> string list" where
  "chat_cmd script = [''osascript'', ''-e'', script]"

definition permission_error :: "string \<Rightarrow> bool" where
  "permission_error err =
     (str_contains err ''not allowed to send keystrokes'' \<or> str_contains err ''1002'')"

text \<open>The lines after a chat script that exits with zero (lines 132 to 134).\<close>

definition success_lines :: "string option \<Rightarrow> message list" where
  "success_lines fp = Opened_new_chat # (if truthy fp then [Prompt_line (fmt fp)] else [])"

text \<open>The lines after a chat script refused for lack of the permission (lines 139 to 146).\<close>

definition permission_guidance :: "string option \<Rightarrow> message list" where
  "permission_guidance fp =
     [Accessibility_required, To_enable, Step_1, Step_2, Step_3, Alternatively]
     @ (if truthy fp then [Then_paste (fmt fp)] else [])"

definition applescript_try ::
  "env \<Rightarrow> string \<Rightarrow> string option \<Rightarrow> trace \<times> (exn + bool option)" where
  "applescript_try e script fp =
     (case subprocess_run e activate_cmd of
        Inl x \<Rightarrow> ([Run activate_cmd], Inl x)
      | Inr result \<Rightarrow>
          if returncode result \<noteq> 0
          then (if printable e Could_not_activate
                then ([Run activate_cmd, Print Could_not_activate], Inr (Some False))
                else ([Run activate_cmd], Inl UnicodeEncodeError))
          else
            (case subprocess_run e (chat_cmd script) of
               Inl x \<Rightarrow> ([Run activate_cmd, Sleep, Run (chat_cmd script)], Inl x)
             | Inr result \<Rightarrow>
                 if returncode result = 0
                 then ([Run activate_cmd, Sleep, Run (chat_cmd script)]
                       @ printed e (success_lines fp),
                       if list_all (printable e) (success_lines fp)
                       then Inr (Some True) else Inl UnicodeEncodeError)
                 else if permission_error (stderr result)
                 then ([Run activate_cmd, Sleep, Run (chat_cmd script)]
                       @ printed e (permission_guidance fp),
                       if list_all (printable e) (permission_guidance fp)
                       then Inr (Some True) else Inl UnicodeEncodeError)
                 else (if printable e (AppleScript_failed (stderr result))
                       then ([Run activate_cmd, Sleep, Run (chat_cmd script),
                              Print (AppleScript_failed (stderr result))], Inr None)
                       else ([Run activate_cmd, Sleep, Run (chat_cmd script)],
                             Inl UnicodeEncodeError))))"

text \<open>
  The block with its handler \<^verbatim>\<open>except Exception as e\<close>, which prints one line; when that
  line cannot be printed, the \<^verbatim>\<open>UnicodeEncodeError\<close> leaves the function. The second
  component is \<open>None\<close> when control reaches the last block, \<open>Some (Inr b)\<close> when the function
  returns \<open>b\<close> here, \<open>Some (Inl x)\<close> when \<open>x\<close> leaves it here.
\<close>

definition applescript_state ::
  "env \<Rightarrow> string \<Rightarrow> string option \<Rightarrow> trace \<times> (exn + bool) option" where
  "applescript_state e script fp =
     (if sys_platform e = ''darwin'' then
        (case applescript_try e script fp of
           (t, Inr None) \<Rightarrow> (t, None)
         | (t, Inr (Some b)) \<Rightarrow> (t, Some (Inr b))
         | (t, Inl x) \<Rightarrow>
             if printable e (AppleScript_raised x)
             then (t @ [Print (AppleScript_raised x)], None)
             else (t, Some (Inl UnicodeEncodeError)))
      else ([], None))"

text \<open>
  Last block (lines 154 to 167 of \<^verbatim>\<open>run_new_agent.py\<close>, 137 to 150 of
  \<^verbatim>\<open>open_cursor_chat.py\<close>, the same text). A \<^verbatim>\<open>Path\<close> is never false, so
  \<^verbatim>\<open>workspace or Path.cwd()\<close> asks for the working directory only when there is no
  workspace; that call stands outside the \<^verbatim>\<open>try\<close>. The return code of the launcher is not
  looked at, and only \<^verbatim>\<open>FileNotFoundError\<close> is caught: any other exception of the launcher,
  that of a \<^verbatim>\<open>print\<close> in the \<^verbatim>\<open>try\<close> and that of a \<^verbatim>\<open>print\<close> in the handler leave the
  function.
\<close>

definition launch_cmd :: "string \<Rightarrow> string list" where
  "launch_cmd wp = [''cursor'', wp]"

definition workspace_path :: "env \<Rightarrow> string option \<Rightarrow> exn + string" where
  "workspace_path e workspace = (case workspace of Some w \<Rightarrow> Inr w | None \<Rightarrow> path_cwd e)"

definition opened_lines :: "string option \<Rightarrow> message list" where
  "opened_lines fp =
     [Opened_cursor, if \<not> truthy fp then Press_for_chat else Press_and_paste (fmt fp)]"

definition not_found_lines :: "message list" where
  "not_found_lines = [Cli_not_found, Install_hint, Or_applescript]"

definition last_resort :: "env \<Rightarrow> string option \<Rightarrow> string option \<Rightarrow> trace \<times> (exn + bool)" where
  "last_resort e workspace fp =
     (case workspace_path e workspace of
        Inl x \<Rightarrow> ([], Inl x)
      | Inr wp \<Rightarrow>
          (case subprocess_run e (launch_cmd wp) of
             Inr result \<Rightarrow>
               (Run (launch_cmd wp) # printed e (opened_lines fp),
                if list_all (printable e) (opened_lines fp)
                then Inr True else Inl UnicodeEncodeError)
           | Inl x \<Rightarrow>
               if x = FileNotFoundError
               then (Run (launch_cmd wp) # printed e not_found_lines,
                     if list_all (printable e) not_found_lines
                     then Inr False else Inl UnicodeEncodeError)
               else ([Run (launch_cmd wp)], Inl x)))"

text \<open>The chain of the second and the last block, which both scripts share.\<close>

definition fallbacks ::
  "env \<Rightarrow> string \<Rightarrow> string option \<Rightarrow> string option \<Rightarrow> trace \<times> (exn + bool)" where
  "fallbacks e script workspace fp =
     (case applescript_state e script fp of
        (t2, Some r) \<Rightarrow> (t2, r)
      | (t2, None) \<Rightarrow>
          (case last_resort e workspace fp of (t3, r) \<Rightarrow> (t2 @ t3, r)))"

definition open_cursor_chat_hybrid ::
  "env \<Rightarrow> string option \<Rightarrow> string option \<Rightarrow> string option \<Rightarrow> trace \<times> (exn + bool)" where
  "open_cursor_chat_hybrid e prompt workspace model =
     (let fp = full_prompt prompt model in
      case cursor_agent_state e fp model of
        (t1, True) \<Rightarrow> (t1, Inr True)
      | (t1, False) \<Rightarrow>
          (case fallbacks e (chat_script fp) workspace fp of (t, r) \<Rightarrow> (t1 @ t, r)))"

definition open_cursor_chat_hybrid_occ ::
  "env \<Rightarrow> string option \<Rightarrow> string option \<Rightarrow> trace \<times> (exn + bool)" where
  "open_cursor_chat_hybrid_occ e prompt workspace =
     (case cursor_agent_state_occ e prompt of
        (t1, True) \<Rightarrow> (t1, Inr True)
      | (t1, False) \<Rightarrow>
          (case fallbacks e (chat_script_occ prompt) workspace prompt of (t, r) \<Rightarrow> (t1 @ t, r)))"

section \<open>The entry points\<close>

text \<open>
  \<^verbatim>\<open>sys.exit(0 if success else 1)\<close>; an exception that leaves the dispatcher is caught
  nowhere, and the interpreter then ends with status 1.
\<close>

fun exit_status :: "exn + bool \<Rightarrow> int" where
  "exit_status (Inr success) = (if success then 0 else 1)"
| "exit_status (Inl x) = 1"

definition main :: "env \<Rightarrow> args \<Rightarrow> trace \<times> int" where
  "main e a =
     (let prompt = main_prompt (arg_prompt a) (arg_agent a) in
      case open_cursor_chat_hybrid e prompt (arg_workspace a) (arg_model a) of
        (t, success) \<Rightarrow> (t, exit_status success))"

definition main_occ :: "env \<Rightarrow> args_occ \<Rightarrow> trace \<times> int" where
  "main_occ e a =
     (case open_cursor_chat_hybrid_occ e (arg_prompt_occ a) (arg_workspace_occ a) of
        (t, success) \<Rightarrow> (t, exit_status success))"

section \<open>Outcomes of the external commands\<close>

text \<open>The vocabulary in which the properties below speak about the host.\<close>

definition exits_zero :: "env \<Rightarrow> string list \<Rightarrow> bool" where
  "exits_zero e cmd =
     (case subprocess_run e cmd of Inr result \<Rightarrow> returncode result = 0 | Inl x \<Rightarrow> False)"

definition exits_nonzero :: "env \<Rightarrow> string list \<Rightarrow> bool" where
  "exits_nonzero e cmd =
     (case subprocess_run e cmd of Inr result \<Rightarrow> returncode result \<noteq> 0 | Inl x \<Rightarrow> False)"

definition raises :: "env \<Rightarrow> string list \<Rightarrow> bool" where
  "raises e cmd = (case subprocess_run e cmd of Inr result \<Rightarrow> False | Inl x \<Rightarrow> True)"

definition permission_denied :: "env \<Rightarrow> string list \<Rightarrow> bool" where
  "permission_denied e cmd =
     (case subprocess_run e cmd of
        Inr result \<Rightarrow> returncode result \<noteq> 0 \<and> permission_error (stderr result)
      | Inl x \<Rightarrow> False)"

text \<open>
  The first block returns \<^verbatim>\<open>True\<close>: it is entered, \<^verbatim>\<open>cursor-agent\<close> exits with status zero
  and the success line is printed.
\<close>

definition agent_succeeds :: "env \<Rightarrow> string option \<Rightarrow> string option \<Rightarrow> bool" where
  "agent_succeeds e fp model =
     (truthy fp \<and> exits_zero e (agent_cmd fp model) \<and> printable e Opened_with_agent)"

definition agent_succeeds_occ :: "env \<Rightarrow> string option \<Rightarrow> bool" where
  "agent_succeeds_occ e prompt =
     (truthy prompt \<and> exits_zero e (agent_cmd_occ prompt) \<and> printable e Opened_with_agent)"

text \<open>The events of a first block that does not return.\<close>

definition agent_attempt :: "string option \<Rightarrow> string option \<Rightarrow> trace" where
  "agent_attempt fp model = (if truthy fp then [Run (agent_cmd fp model)] else [])"

definition agent_attempt_occ :: "string option \<Rightarrow> trace" where
  "agent_attempt_occ prompt = (if truthy prompt then [Run (agent_cmd_occ prompt)] else [])"

text \<open>
  The second block returns \<^verbatim>\<open>True\<close>: on macOS the activation exits with zero, and the chat
  script exits with zero or fails with the permission marker in its error output, and the
  lines that follow are printed.
\<close>

definition applescript_succeeds :: "env \<Rightarrow> string \<Rightarrow> string option \<Rightarrow> bool" where
  "applescript_succeeds e script fp =
     (sys_platform e = ''darwin'' \<and> exits_zero e activate_cmd
      \<and> ((exits_zero e (chat_cmd script) \<and> list_all (printable e) (success_lines fp))
          \<or> (permission_denied e (chat_cmd script)
              \<and> list_all (printable e) (permission_guidance fp))))"

text \<open>
  The \<^verbatim>\<open>osascript\<close> runs of the second block end so that, with every line printed, the block
  hands over to the last one: off macOS; or \<^verbatim>\<open>osascript\<close> raises at the activation; or the
  activation exits with zero and the chat script raises or fails without the permission
  marker.
\<close>

definition applescript_passes_on :: "env \<Rightarrow> string \<Rightarrow> bool" where
  "applescript_passes_on e script =
     (sys_platform e \<noteq> ''darwin'' \<or> raises e activate_cmd
      \<or> (exits_zero e activate_cmd
          \<and> (raises e (chat_cmd script)
              \<or> (exits_nonzero e (chat_cmd script) \<and> \<not> permission_denied e (chat_cmd script)))))"

text \<open>The launcher is absent: starting it raises \<^verbatim>\<open>FileNotFoundError\<close>.\<close>

definition launcher_missing :: "env \<Rightarrow> string option \<Rightarrow> bool" where
  "launcher_missing e workspace =
     (case workspace_path e workspace of
        Inr wp \<Rightarrow> subprocess_run e (launch_cmd wp) = Inl FileNotFoundError
      | Inl x \<Rightarrow> False)"

text \<open>The launcher cannot be started: the working directory or the launch raises.\<close>

definition launcher_unavailable :: "env \<Rightarrow> string option \<Rightarrow> bool" where
  "launcher_unavailable e workspace =
     (case workspace_path e workspace of Inr wp \<Rightarrow> raises e (launch_cmd wp) | Inl x \<Rightarrow> True)"

text \<open>
  What the last block ends with when the launcher is started with \<open>cmd\<close> and every line
  is printed.
\<close>

definition launch_outcome :: "env \<Rightarrow> string list \<Rightarrow> exn + bool" where
  "launch_outcome e cmd =
     (case subprocess_run e cmd of
        Inr result \<Rightarrow> Inr True
      | Inl x \<Rightarrow> if x = FileNotFoundError then Inr False else Inl x)"

text \<open>The lookup from agent role to canned instruction, as a table.\<close>

definition agent_table :: "(string \<times> string) list" where
  "agent_table =
     [(''swe'', ''run swe agent''),
      (''qa'', ''Use @.cursor/rules/qa-agent.mdc''),
      (''pm'', ''Use @.cursor/rules/pm-agent.mdc''),
      (''docs'', ''run docs agent'')]"

section \<open>Sample hosts and command lines\<close>

text \<open>A Linux host on which none of the commands is installed; the output is UTF-8.\<close>

definition host_bare :: env where
  "host_bare =
     \<lparr>sys_platform = ''linux'',
      subprocess_run = (\<lambda>cmd. Inl FileNotFoundError),
      path_cwd = Inr ''/work'',
      stdout_encodes = (\<lambda>g. True),
      stdout_encodes_char = (\<lambda>c. True)\<rparr>"

text \<open>A Mac on which every command exits with zero; the output is UTF-8.\<close>

definition host_agent :: env where
  "host_agent =
     \<lparr>sys_platform = ''darwin'',
      subprocess_run = (\<lambda>cmd. Inr (Completed 0 [])),
      path_cwd = Inr ''/work'',
      stdout_encodes = (\<lambda>g. True),
      stdout_encodes_char = (\<lambda>c. True)\<rparr>"

text \<open>
  The same Mac, and a Linux host like it, with a standard output in ASCII: none of the
  symbols is encoded.
\<close>

definition host_agent_ascii :: env where
  "host_agent_ascii =
     \<lparr>sys_platform = ''darwin'',
      subprocess_run = (\<lambda>cmd. Inr (Completed 0 [])),
      path_cwd = Inr ''/work'',
      stdout_encodes = (\<lambda>g. False),
      stdout_encodes_char = (\<lambda>c. True)\<rparr>"

definition host_linux_ascii :: env where
  "host_linux_ascii =
     \<lparr>sys_platform = ''linux'',
      subprocess_run = (\<lambda>cmd. Inr (Completed 0 [])),
      path_cwd = Inr ''/work'',
      stdout_encodes = (\<lambda>g. False),
      stdout_encodes_char = (\<lambda>c. True)\<rparr>"

text \<open>
  A Mac without \<^verbatim>\<open>cursor-agent\<close> on which the application does not activate; the launcher
  is installed and the output is UTF-8.
\<close>

definition host_no_app :: env where
  "host_no_app =
     \<lparr>sys_platform = ''darwin'',
      subprocess_run = (\<lambda>cmd.
         if hd cmd = ''osascript'' then Inr (Completed 1 ''execution error'')
         else if hd cmd = ''cursor'' then Inr (Completed 0 [])
         else Inl FileNotFoundError),
      path_cwd = Inr ''/work'',
      stdout_encodes = (\<lambda>g. True),
      stdout_encodes_char = (\<lambda>c. True)\<rparr>"

text \<open>
  A Mac with neither \<^verbatim>\<open>cursor-agent\<close> nor the launcher, on which the application activates
  and the keystrokes are refused for lack of the accessibility permission; the output is
  UTF-8. The second host is the same with a standard output in ASCII.
\<close>

definition host_no_permission :: env where
  "host_no_permission =
     \<lparr>sys_platform = ''darwin'',
      subprocess_run = (\<lambda>cmd.
         if cmd = activate_cmd then Inr (Completed 0 [])
         else if hd cmd = ''osascript''
         then Inr (Completed 1 ''osascript is not allowed to send keystrokes. (1002)'')
         else Inl FileNotFoundError),
      path_cwd = Inr ''/work'',
      stdout_encodes = (\<lambda>g. True),
      stdout_encodes_char = (\<lambda>c. True)\<rparr>"

definition host_no_permission_ascii :: env where
  "host_no_permission_ascii = host_no_permission\<lparr>stdout_encodes := (\<lambda>g. False)\<rparr>"

text \<open>
  A Mac without \<^verbatim>\<open>osascript\<close> and without \<^verbatim>\<open>cursor-agent\<close>, with the launcher installed
  and no working directory; the output is UTF-8.
\<close>

definition host_no_cwd :: env where
  "host_no_cwd =
     \<lparr>sys_platform = ''darwin'',
      subprocess_run = (\<lambda>cmd.
         if hd cmd = ''cursor'' then Inr (Completed 0 []) else Inl FileNotFoundError),
      path_cwd = Inl FileNotFoundError,
      stdout_encodes = (\<lambda>g. True),
      stdout_encodes_char = (\<lambda>c. True)\<rparr>"

text \<open>The effective prompt of a command line of \<^verbatim>\<open>run_new_agent.py\<close>.\<close>

definition effective_prompt :: "args \<Rightarrow> string option" where
  "effective_prompt a = full_prompt (main_prompt (arg_prompt a) (arg_agent a)) (arg_model a)"

definition swe_args :: args where
  "swe_args = \<lparr>arg_agent = Some ''swe'', arg_model = None, arg_prompt = None, arg_workspace = None\<rparr>"

definition hi_args :: args where
  "hi_args = \<lparr>arg_agent = None, arg_model = None, arg_prompt = Some ''hi'', arg_workspace = None\<rparr>"

definition hi_args_occ :: args_occ where
  "hi_args_occ = \<lparr>arg_prompt_occ = Some ''hi'', arg_workspace_occ = None\<rparr>"

section \<open>Properties of the escaping\<close>

lemma replace_scan_Nil: "replace_scan old new [] = []"
  by simp

lemma replace_scan_single:
  "replace_scan [c] new (x # xs) =
     (if x = c then new @ replace_scan [c] new xs else x # replace_scan [c] new xs)"
  by (subst replace_scan.simps) simp

lemma replace_scan_char:
  "replace_scan [c] new s = concat (map (\<lambda>x. if x = c then new else [x]) s)"
proof (induction s)
  case Nil
  show ?case by (simp add: replace_scan_Nil)
next
  case (Cons x xs)
  then show ?case by (simp add: replace_scan_single del: replace_scan.simps)
qed

lemma str_replace_char:
  "str_replace s [c] new = concat (map (\<lambda>x. if x = c then new else [x]) s)"
  by (simp add: str_replace_def replace_scan_char del: replace_scan.simps)

lemma backslash_neq_dquote: "backslash \<noteq> dquote"
  by (simp add: backslash_def dquote_def)

lemma quote_pass_escape_char:
  "concat (map (\<lambda>x. if x = dquote then [backslash, dquote] else [x])
      (if c = backslash then [backslash, backslash] else [c])) = escape_char c"
  using backslash_neq_dquote by (simp add: escape_char_def)

lemma two_passes_concat:
  "concat (map g (concat (map f s))) = concat (map (\<lambda>c. concat (map g (f c))) s)"
  by (induction s) simp_all

lemma escape_two_passes:
  "str_replace (str_replace s [backslash] [backslash, backslash]) [dquote] [backslash, dquote]
     = concat (map escape_char s)"
  by (simp only: str_replace_char two_passes_concat quote_pass_escape_char)

lemma escape_char_plain: "c \<noteq> backslash \<Longrightarrow> c \<noteq> dquote \<Longrightarrow> escape_char c = [c]"
  by (simp add: escape_char_def)

lemma concat_map_singleton: "\<forall>c \<in> set s. f c = [c] \<Longrightarrow> concat (map f s) = s"
  by (induction s) simp_all

text \<open>
  C1. For every input string, \<open>escape_applescript_string\<close> is the backslash replacement
  followed by the quote replacement, and its result is the input with every backslash
  doubled and every double-quote preceded by one backslash, all other characters kept:
  the backslashes that the quote replacement adds are not doubled.
\<close>

theorem escape_applescript_string_correct:
  "escape_applescript_string text =
     str_replace (str_replace text [backslash] [backslash, backslash])
       [dquote] [backslash, dquote]
   \<and> escape_applescript_string text = concat (map escape_char text)
   \<and> escape_applescript_string_occ text = concat (map escape_char text)"
  by (simp only: escape_applescript_string_def escape_applescript_string_occ_def
      escape_two_passes)

text \<open>
  C10. On a string with no backslash and no double-quote the escaping returns its input,
  and the escaping functions of the two scripts agree on every string.
\<close>

theorem escape_applescript_string_identity:
  "escape_applescript_string = escape_applescript_string_occ
   \<and> (backslash \<notin> set text \<and> dquote \<notin> set text \<longrightarrow>
        escape_applescript_string text = text \<and> escape_applescript_string_occ text = text)"
proof (intro conjI impI)
  show "escape_applescript_string = escape_applescript_string_occ"
    by (rule ext) (simp only: escape_applescript_string_def escape_applescript_string_occ_def)
next
  assume bq: "backslash \<notin> set text \<and> dquote \<notin> set text"
  have plain: "\<forall>c \<in> set text. escape_char c = [c]"
  proof
    fix c assume "c \<in> set text"
    with bq have "c \<noteq> backslash" and "c \<noteq> dquote" by auto
    then show "escape_char c = [c]" by (rule escape_char_plain)
  qed
  have id: "concat (map escape_char text) = text"
    using plain by (rule concat_map_singleton)
  show "escape_applescript_string text = text"
    by (simp only: escape_applescript_string_def escape_two_passes id)
  show "escape_applescript_string_occ text = text"
    by (simp only: escape_applescript_string_occ_def escape_two_passes id)
qed

theorem escape_applescript_string_identity_witness:
  "backslash \<notin> set ''run swe agent'' \<and> dquote \<notin> set ''run swe agent''
   \<and> escape_applescript_string ''run swe agent'' = ''run swe agent''
   \<and> escape_applescript_string_occ ''run swe agent'' = ''run swe agent''"
proof -
  have bq: "backslash \<notin> set ''run swe agent'' \<and> dquote \<notin> set ''run swe agent''"
    by (simp add: backslash_def dquote_def)
  show ?thesis
    using bq escape_applescript_string_identity [of "''run swe agent''"] by blast
qed

section \<open>Properties of prompt resolution\<close>

lemma main_prompt_swe: "\<not> truthy prompt \<Longrightarrow> main_prompt prompt (Some ''swe'') = Some ''run swe agent''"
  by (simp add: main_prompt_def)

lemma main_prompt_qa:
  "\<not> truthy prompt \<Longrightarrow> main_prompt prompt (Some ''qa'') = Some ''Use @.cursor/rules/qa-agent.mdc''"
  by (simp add: main_prompt_def)

lemma main_prompt_pm:
  "\<not> truthy prompt \<Longrightarrow> main_prompt prompt (Some ''pm'') = Some ''Use @.cursor/rules/pm-agent.mdc''"
  by (simp add: main_prompt_def)

lemma main_prompt_docs: "\<not> truthy prompt \<Longrightarrow> main_prompt prompt (Some ''docs'') = Some ''run docs agent''"
  by (simp add: main_prompt_def)

lemma rule_file_swe: "\<not> references_rule_file ''run swe agent''"
  by (simp add: references_rule_file_def)

lemma rule_file_docs: "\<not> references_rule_file ''run docs agent''"
  by (simp add: references_rule_file_def)

lemma rule_file_qa: "references_rule_file ''Use @.cursor/rules/qa-agent.mdc''"
  by (simp add: references_rule_file_def)

lemma rule_file_pm: "references_rule_file ''Use @.cursor/rules/pm-agent.mdc''"
  by (simp add: references_rule_file_def)

text \<open>
  Two of the four roles, \<^verbatim>\<open>swe\<close> and \<^verbatim>\<open>docs\<close>, resolve to an instruction that names no
  rule-configuration file; the claim that three roles name one fails.
\<close>

theorem agent_roles_counterexample:
  "main_prompt None (Some ''swe'') = Some ''run swe agent''
   \<and> main_prompt None (Some ''docs'') = Some ''run docs agent''
   \<and> \<not> references_rule_file ''run swe agent''
   \<and> \<not> references_rule_file ''run docs agent''
   \<and> ''swe'' \<noteq> ''docs''"
  by (simp add: main_prompt_swe main_prompt_docs rule_file_swe rule_file_docs)

text \<open>
  C2, amended. For every agent role of the four recognised ones, when no explicit prompt is
  supplied (none or the empty string) the resolved prompt is the entry of the fixed table for
  that role; the entries of \<^verbatim>\<open>qa\<close> and \<^verbatim>\<open>pm\<close> name a rule-configuration file under
  \<^verbatim>\<open>.cursor/rules/\<close>, and those of \<^verbatim>\<open>swe\<close> and \<^verbatim>\<open>docs\<close> are generic instructions
  that name none.
\<close>

theorem main_prompt_agent_table:
  assumes "\<not> truthy prompt" and "agent \<in> set agent_choices"
  shows "main_prompt prompt (Some agent) = map_of agent_table agent
         \<and> (references_rule_file (fmt (main_prompt prompt (Some agent)))
              \<longleftrightarrow> agent = ''qa'' \<or> agent = ''pm'')"
proof -
  from assms(2) consider "agent = ''swe''" | "agent = ''qa''" | "agent = ''pm''" | "agent = ''docs''"
    by (auto simp: agent_choices_def)
  then show ?thesis
  proof cases
    case 1
    then show ?thesis
      using assms(1) by (simp add: main_prompt_swe rule_file_swe agent_table_def)
  next
    case 2
    then show ?thesis
      using assms(1) by (simp add: main_prompt_qa rule_file_qa agent_table_def)
  next
    case 3
    then show ?thesis
      using assms(1) by (simp add: main_prompt_pm rule_file_pm agent_table_def)
  next
    case 4
    then show ?thesis
      using assms(1) by (simp add: main_prompt_docs rule_file_docs agent_table_def)
  qed
qed

theorem main_prompt_agent_table_witness:
  "\<not> truthy (Some '''') \<and> ''qa'' \<in> set agent_choices
   \<and> main_prompt (Some '''') (Some ''qa'') = Some ''Use @.cursor/rules/qa-agent.mdc''
   \<and> references_rule_file (fmt (main_prompt (Some '''') (Some ''qa'')))"
proof -
  have h1: "\<not> truthy (Some '''')" by simp
  have h2: "''qa'' \<in> set agent_choices" by (simp add: agent_choices_def)
  show ?thesis
    using h1 h2 main_prompt_agent_table [OF h1 h2] by (auto simp: agent_table_def)
qed

text \<open>
  An explicit prompt that is the empty string does not take precedence: with the role
  \<^verbatim>\<open>swe\<close> the resolved prompt is the instruction of the role.
\<close>

theorem empty_prompt_counterexample:
  "main_prompt (Some '''') (Some ''swe'') = Some ''run swe agent''
   \<and> main_prompt (Some '''') (Some ''swe'') \<noteq> Some ''''"
  by (simp add: main_prompt_def)

text \<open>
  C3, amended. For every non-empty explicit prompt and every agent role, given or not, the
  resolved prompt is the explicit prompt.
\<close>

theorem main_prompt_explicit:
  "p \<noteq> [] \<Longrightarrow> main_prompt (Some p) agent = Some p"
  by (simp add: main_prompt_def)

theorem main_prompt_explicit_witness:
  "''Refactor this code'' \<noteq> []
   \<and> main_prompt (Some ''Refactor this code'') (Some ''qa'') = Some ''Refactor this code''"
proof -
  have h: "''Refactor this code'' \<noteq> []" by simp
  show ?thesis using h main_prompt_explicit [OF h, of "Some ''qa''"] by simp
qed

text \<open>
  A model name that is the empty string adds nothing: the effective prompt is the prompt
  as it came, and without a prompt there is none.
\<close>

theorem empty_model_counterexample:
  "full_prompt (Some ''hi'') (Some '''') = Some ''hi''
   \<and> full_prompt (Some ''hi'') (Some '''') \<noteq> Some (''hi'' @ '' (model: '' @ '''' @ '')'')
   \<and> full_prompt None (Some '''') = None
   \<and> full_prompt None (Some '''') \<noteq> Some (''(model: '' @ '''' @ '')'')"
  by (simp add: full_prompt_def)

text \<open>
  C4, amended. For every non-empty model name \<open>m\<close>: with a non-empty prompt \<open>p\<close> the
  effective prompt is \<open>p\<close> followed by \<^verbatim>\<open> (model: m)\<close>; with no prompt, or an empty one, it
  is \<^verbatim>\<open>(model: m)\<close> alone.
\<close>

theorem full_prompt_model:
  assumes "m \<noteq> []"
  shows "(p \<noteq> [] \<longrightarrow> full_prompt (Some p) (Some m) = Some (p @ '' (model: '' @ m @ '')''))
         \<and> (\<not> truthy prompt \<longrightarrow> full_prompt prompt (Some m) = Some (''(model: '' @ m @ '')''))"
  using assms by (simp add: full_prompt_def)

theorem full_prompt_model_witness:
  "''gpt-4'' \<noteq> [] \<and> ''hi'' \<noteq> [] \<and> \<not> truthy None
   \<and> full_prompt (Some ''hi'') (Some ''gpt-4'') = Some ''hi (model: gpt-4)''
   \<and> full_prompt None (Some ''gpt-4'') = Some ''(model: gpt-4)''"
proof -
  have h: "''gpt-4'' \<noteq> []" by simp
  show ?thesis using h full_prompt_model [OF h, of "''hi''" None] by simp
qed

section \<open>Properties of printing\<close>

lemma printable_total:
  assumes "\<And>g. stdout_encodes e g" and "\<And>c. stdout_encodes_char e c"
  shows "printable e m"
  using assms by (simp add: printable_def list_all_iff)

lemma printable_warning: "printable e (AppleScript_raised x) = printable e Could_not_activate"
  by (simp add: printable_def)

lemma printed_ok: "list_all (printable e) ms \<Longrightarrow> printed e ms = map Print ms"
  by (induction ms) simp_all

lemma printed_commands: "commands (printed e ms) = []"
  by (induction ms) simp_all

lemma commands_append: "commands (xs @ ys) = commands xs @ commands ys"
  by (induction xs rule: commands.induct) simp_all

section \<open>Properties of the three blocks\<close>

lemma cursor_agent_state_success:
  "agent_succeeds e fp model \<Longrightarrow>
     cursor_agent_state e fp model = ([Run (agent_cmd fp model), Print Opened_with_agent], True)"
  by (auto simp: agent_succeeds_def exits_zero_def cursor_agent_state_def split: sum.splits)

lemma cursor_agent_state_failure:
  "\<not> agent_succeeds e fp model \<Longrightarrow>
     cursor_agent_state e fp model = (agent_attempt fp model, False)"
  by (auto simp: agent_succeeds_def exits_zero_def cursor_agent_state_def agent_attempt_def
      split: sum.splits)

lemma cursor_agent_state_occ_success:
  "agent_succeeds_occ e prompt \<Longrightarrow>
     cursor_agent_state_occ e prompt =
       ([Run (agent_cmd_occ prompt), Print Opened_with_agent], True)"
  by (auto simp: agent_succeeds_occ_def exits_zero_def cursor_agent_state_occ_def
      split: sum.splits)

lemma cursor_agent_state_occ_failure:
  "\<not> agent_succeeds_occ e prompt \<Longrightarrow>
     cursor_agent_state_occ e prompt = (agent_attempt_occ prompt, False)"
  by (auto simp: agent_succeeds_occ_def exits_zero_def cursor_agent_state_occ_def
      agent_attempt_occ_def split: sum.splits)

lemma applescript_try_activation_fails:
  "exits_nonzero e activate_cmd \<Longrightarrow>
     applescript_try e script fp =
       (if printable e Could_not_activate
        then ([Run activate_cmd, Print Could_not_activate], Inr (Some False))
        else ([Run activate_cmd], Inl UnicodeEncodeError))"
  by (auto simp: applescript_try_def exits_nonzero_def split: sum.splits)

lemma applescript_state_activation_fails:
  "sys_platform e = ''darwin'' \<Longrightarrow> exits_nonzero e activate_cmd \<Longrightarrow>
     applescript_state e script fp =
       (if printable e Could_not_activate
        then ([Run activate_cmd, Print Could_not_activate], Some (Inr False))
        else ([Run activate_cmd], Some (Inl UnicodeEncodeError)))"
  by (simp add: applescript_state_def applescript_try_activation_fails printable_warning)

lemma applescript_try_permission:
  "exits_zero e activate_cmd \<Longrightarrow> permission_denied e (chat_cmd script) \<Longrightarrow>
     applescript_try e script fp =
       ([Run activate_cmd, Sleep, Run (chat_cmd script)] @ printed e (permission_guidance fp),
        if list_all (printable e) (permission_guidance fp)
        then Inr (Some True) else Inl UnicodeEncodeError)"
  by (auto simp: applescript_try_def exits_zero_def permission_denied_def
      split: sum.splits)

lemma applescript_try_chat_ok:
  "exits_zero e activate_cmd \<Longrightarrow> exits_zero e (chat_cmd script) \<Longrightarrow>
     applescript_try e script fp =
       ([Run activate_cmd, Sleep, Run (chat_cmd script)] @ printed e (success_lines fp),
        if list_all (printable e) (success_lines fp)
        then Inr (Some True) else Inl UnicodeEncodeError)"
  by (auto simp: applescript_try_def exits_zero_def
      split: sum.splits)

lemma applescript_try_True:
  "snd (applescript_try e script fp) = Inr (Some True) \<longleftrightarrow>
     exits_zero e activate_cmd
     \<and> ((exits_zero e (chat_cmd script) \<and> list_all (printable e) (success_lines fp))
        \<or> (permission_denied e (chat_cmd script)
            \<and> list_all (printable e) (permission_guidance fp)))"
  by (auto simp: applescript_try_def exits_zero_def permission_denied_def
      split: sum.splits)

lemma applescript_state_True:
  "snd (applescript_state e script fp) = Some (Inr True) \<longleftrightarrow> applescript_succeeds e script fp"
proof (cases "sys_platform e = ''darwin''")
  case False
  then show ?thesis by (simp add: applescript_state_def applescript_succeeds_def)
next
  case True
  obtain t r where tr: "applescript_try e script fp = (t, r)" by (cases "applescript_try e script fp")
  then have "snd (applescript_state e script fp) = Some (Inr True) \<longleftrightarrow> r = Inr (Some True)"
    using True by (auto simp: applescript_state_def split: sum.splits option.splits)
  also have "\<dots> \<longleftrightarrow> snd (applescript_try e script fp) = Inr (Some True)"
    using tr by simp
  finally show ?thesis
    using True by (simp add: applescript_try_True applescript_succeeds_def)
qed

lemma applescript_try_commands:
  "cmd \<in> set (commands (fst (applescript_try e script fp))) \<Longrightarrow> hd cmd = ''osascript''"
  by (auto simp: applescript_try_def activate_cmd_def chat_cmd_def commands_append
      printed_commands split: sum.splits if_splits prod.splits)

lemma applescript_state_commands:
  "cmd \<in> set (commands (fst (applescript_state e script fp))) \<Longrightarrow> hd cmd = ''osascript''"
proof (cases "sys_platform e = ''darwin''")
  case False
  assume "cmd \<in> set (commands (fst (applescript_state e script fp)))"
  with False show ?thesis by (simp add: applescript_state_def)
next
  case True
  assume c: "cmd \<in> set (commands (fst (applescript_state e script fp)))"
  obtain t r where tr: "applescript_try e script fp = (t, r)" by (cases "applescript_try e script fp")
  with True c have "cmd \<in> set (commands t)"
    by (auto simp: applescript_state_def commands_append split: sum.splits option.splits if_splits)
  then show ?thesis using applescript_try_commands [of cmd e script fp] tr by simp
qed

lemma applescript_try_starts:
  "\<exists>t. fst (applescript_try e script fp) = Run activate_cmd # t"
  by (auto simp: applescript_try_def split: sum.splits prod.splits)

lemma applescript_state_activates:
  "sys_platform e = ''darwin'' \<Longrightarrow> Run activate_cmd \<in> set (fst (applescript_state e script fp))"
proof -
  assume d: "sys_platform e = ''darwin''"
  obtain t r where tr: "applescript_try e script fp = (t, r)" by (cases "applescript_try e script fp")
  from applescript_try_starts [of e script fp] tr have "Run activate_cmd \<in> set t" by auto
  with d tr show ?thesis
    by (auto simp: applescript_state_def split: sum.splits option.splits)
qed

lemma last_resort_not_True:
  "launcher_unavailable e workspace \<Longrightarrow> snd (last_resort e workspace fp) \<noteq> Inr True"
  by (auto simp: last_resort_def launcher_unavailable_def raises_def
      split: sum.splits prod.splits)

lemma last_resort_commands:
  "cmd \<in> set (commands (fst (last_resort e workspace fp))) \<Longrightarrow> hd cmd = ''cursor''"
  by (auto simp: last_resort_def launch_cmd_def printed_commands
      split: sum.splits if_splits prod.splits)

lemma last_resort_launches:
  "workspace_path e workspace = Inr wp \<Longrightarrow>
     Run (launch_cmd wp) \<in> set (fst (last_resort e workspace fp))"
  by (auto simp: last_resort_def split: sum.splits prod.splits)

section \<open>Properties of the chain\<close>

lemma fallbacks_returned:
  "applescript_state e script fp = (t2, Some r) \<Longrightarrow> fallbacks e script workspace fp = (t2, r)"
  by (simp add: fallbacks_def)

lemma fallbacks_passed_on:
  "snd (applescript_state e script fp) = None \<Longrightarrow>
     fallbacks e script workspace fp =
       (fst (applescript_state e script fp) @ fst (last_resort e workspace fp),
        snd (last_resort e workspace fp))"
  by (cases "applescript_state e script fp") (simp add: fallbacks_def split: prod.splits)

lemma fallbacks_decided:
  "snd (applescript_state e script fp) = Some r \<Longrightarrow>
     fallbacks e script workspace fp = (fst (applescript_state e script fp), r)"
  by (cases "applescript_state e script fp") (simp add: fallbacks_def)

lemma fallbacks_True_cases:
  assumes t: "snd (fallbacks e script workspace fp) = Inr True"
  shows "applescript_succeeds e script fp \<or> \<not> launcher_unavailable e workspace"
proof (cases "snd (applescript_state e script fp)")
  case None
  then have "snd (fallbacks e script workspace fp) = snd (last_resort e workspace fp)"
    by (simp add: fallbacks_passed_on)
  with t have "snd (last_resort e workspace fp) = Inr True" by simp
  then show ?thesis using last_resort_not_True by blast
next
  case (Some r)
  then have "snd (fallbacks e script workspace fp) = r"
    by (simp add: fallbacks_decided)
  with t Some have "snd (applescript_state e script fp) = Some (Inr True)" by simp
  then show ?thesis by (simp add: applescript_state_True)
qed

lemma fallbacks_commands:
  assumes "cmd \<in> set (commands (fst (fallbacks e script workspace fp)))"
  shows "hd cmd = ''osascript'' \<or> hd cmd = ''cursor''"
proof (cases "snd (applescript_state e script fp)")
  case None
  then have "fst (fallbacks e script workspace fp) =
      fst (applescript_state e script fp) @ fst (last_resort e workspace fp)"
    by (simp add: fallbacks_passed_on)
  with assms have "cmd \<in> set (commands (fst (applescript_state e script fp)))
      \<or> cmd \<in> set (commands (fst (last_resort e workspace fp)))"
    by (simp add: commands_append)
  then show ?thesis
    using applescript_state_commands last_resort_commands by blast
next
  case (Some r)
  then have "fst (fallbacks e script workspace fp) = fst (applescript_state e script fp)"
    by (simp add: fallbacks_decided)
  with assms show ?thesis
    using applescript_state_commands by simp
qed

lemma fallbacks_activates:
  assumes "sys_platform e = ''darwin''"
  shows "Run activate_cmd \<in> set (fst (fallbacks e script workspace fp))"
proof (cases "snd (applescript_state e script fp)")
  case None
  then show ?thesis
    using applescript_state_activates [OF assms, of script fp] by (simp add: fallbacks_passed_on)
next
  case (Some r)
  then show ?thesis
    using applescript_state_activates [OF assms, of script fp] by (simp add: fallbacks_decided)
qed

lemma fallbacks_activation_fails:
  "sys_platform e = ''darwin'' \<Longrightarrow> exits_nonzero e activate_cmd \<Longrightarrow>
     fallbacks e script workspace fp =
       (if printable e Could_not_activate
        then ([Run activate_cmd, Print Could_not_activate], Inr False)
        else ([Run activate_cmd], Inl UnicodeEncodeError))"
  by (simp add: fallbacks_def applescript_state_activation_fails)

lemma hybrid_success:
  "agent_succeeds e (full_prompt prompt model) model \<Longrightarrow>
     open_cursor_chat_hybrid e prompt workspace model =
       ([Run (agent_cmd (full_prompt prompt model) model), Print Opened_with_agent], Inr True)"
  by (simp add: open_cursor_chat_hybrid_def cursor_agent_state_success)

lemma hybrid_failure:
  "\<not> agent_succeeds e (full_prompt prompt model) model \<Longrightarrow>
     open_cursor_chat_hybrid e prompt workspace model =
       (agent_attempt (full_prompt prompt model) model
          @ fst (fallbacks e (chat_script (full_prompt prompt model)) workspace
                  (full_prompt prompt model)),
        snd (fallbacks e (chat_script (full_prompt prompt model)) workspace
              (full_prompt prompt model)))"
  by (simp add: open_cursor_chat_hybrid_def cursor_agent_state_failure Let_def
      split: prod.splits)

lemma hybrid_occ_success:
  "agent_succeeds_occ e prompt \<Longrightarrow>
     open_cursor_chat_hybrid_occ e prompt workspace =
       ([Run (agent_cmd_occ prompt), Print Opened_with_agent], Inr True)"
  by (simp add: open_cursor_chat_hybrid_occ_def cursor_agent_state_occ_success)

lemma hybrid_occ_failure:
  "\<not> agent_succeeds_occ e prompt \<Longrightarrow>
     open_cursor_chat_hybrid_occ e prompt workspace =
       (agent_attempt_occ prompt @ fst (fallbacks e (chat_script_occ prompt) workspace prompt),
        snd (fallbacks e (chat_script_occ prompt) workspace prompt))"
  by (simp add: open_cursor_chat_hybrid_occ_def cursor_agent_state_occ_failure
      split: prod.splits)

section \<open>The chain on a host that prints every line\<close>

lemma all_printable: "(\<And>m. printable e m) \<Longrightarrow> list_all (printable e) ms"
  by (simp add: list_all_iff)

lemma applescript_state_False_printing:
  assumes "\<And>m. printable e m"
  shows "snd (applescript_state e script fp) = Some (Inr False) \<longleftrightarrow>
     sys_platform e = ''darwin'' \<and> exits_nonzero e activate_cmd"
  using assms
  by (auto simp: applescript_state_def applescript_try_def exits_nonzero_def all_printable
      split: sum.splits)

lemma applescript_state_None_printing:
  assumes "\<And>m. printable e m"
  shows "snd (applescript_state e script fp) = None \<longleftrightarrow> applescript_passes_on e script"
  using assms
  by (auto simp: applescript_state_def applescript_try_def applescript_passes_on_def
      exits_zero_def exits_nonzero_def raises_def permission_denied_def all_printable
      split: sum.splits)

lemma last_resort_outcome_printing:
  assumes "\<And>m. printable e m" and "workspace_path e workspace = Inr wp"
  shows "snd (last_resort e workspace fp) = launch_outcome e (launch_cmd wp)"
  using assms by (auto simp: last_resort_def launch_outcome_def all_printable split: sum.splits)

lemma last_resort_False_printing:
  assumes "\<And>m. printable e m"
  shows "snd (last_resort e workspace fp) = Inr False \<longleftrightarrow> launcher_missing e workspace"
  using assms by (auto simp: last_resort_def launcher_missing_def all_printable split: sum.splits)

lemma fallbacks_False_printing:
  assumes ap: "\<And>m. printable e m"
  shows "snd (fallbacks e script workspace fp) = Inr False \<longleftrightarrow>
     (sys_platform e = ''darwin'' \<and> exits_nonzero e activate_cmd)
     \<or> (applescript_passes_on e script \<and> launcher_missing e workspace)"
proof (cases "snd (applescript_state e script fp)")
  case None
  then have "snd (fallbacks e script workspace fp) = snd (last_resort e workspace fp)"
    by (simp add: fallbacks_passed_on)
  moreover from None have "applescript_passes_on e script"
    by (simp add: applescript_state_None_printing [OF ap])
  moreover from None have "\<not> (sys_platform e = ''darwin'' \<and> exits_nonzero e activate_cmd)"
    using applescript_state_False_printing [OF ap, of script fp] by simp
  ultimately show ?thesis
    by (auto simp: last_resort_False_printing [OF ap])
next
  case (Some r)
  then have r: "snd (fallbacks e script workspace fp) = r"
    by (simp add: fallbacks_decided)
  from Some have "\<not> applescript_passes_on e script"
    using applescript_state_None_printing [OF ap, of script fp] by simp
  moreover have "r = Inr False \<longleftrightarrow> sys_platform e = ''darwin'' \<and> exits_nonzero e activate_cmd"
    using Some applescript_state_False_printing [OF ap, of script fp] by simp
  ultimately show ?thesis
    using r by auto
qed

lemma fallbacks_launch_printing:
  assumes ap: "\<And>m. printable e m"
    and p: "applescript_passes_on e script"
    and w: "workspace_path e workspace = Inr wp"
  shows "Run (launch_cmd wp) \<in> set (fst (fallbacks e script workspace fp))
    \<and> snd (fallbacks e script workspace fp) = launch_outcome e (launch_cmd wp)"
proof -
  from p have "snd (applescript_state e script fp) = None"
    by (simp add: applescript_state_None_printing [OF ap])
  then have "fallbacks e script workspace fp =
       (fst (applescript_state e script fp) @ fst (last_resort e workspace fp),
        snd (last_resort e workspace fp))"
    by (rule fallbacks_passed_on)
  then show ?thesis
    using last_resort_launches [OF w, of fp] last_resort_outcome_printing [OF ap w, of fp]
    by simp
qed

section \<open>The sample hosts\<close>

lemma hd_triple_quoted: "hd (triple_quoted ls) = CHR ''\<newline>''"
  by (simp add: triple_quoted_def)

lemma hd_activate_script: "hd activate_script = CHR ''t''"
  by (simp add: activate_script_def)

lemma chat_script_not_activate: "chat_script fp \<noteq> activate_script"
proof
  assume "chat_script fp = activate_script"
  then have "hd (chat_script fp) = hd activate_script" by simp
  then show False
    by (simp add: chat_script_def chat_script_prompt_def chat_script_plain_def
        hd_triple_quoted hd_activate_script split: if_splits)
qed

lemma chat_script_occ_not_activate: "chat_script_occ prompt \<noteq> activate_script"
proof
  assume "chat_script_occ prompt = activate_script"
  then have "hd (chat_script_occ prompt) = hd activate_script" by simp
  then show False
    by (simp add: chat_script_occ_def chat_script_prompt_occ_def chat_script_plain_def
        hd_triple_quoted hd_activate_script split: if_splits)
qed

lemma host_bare_printable: "printable host_bare m"
  by (simp add: printable_def host_bare_def list_all_iff)

lemma host_no_app_printable: "printable host_no_app m"
  by (simp add: printable_def host_no_app_def list_all_iff)

lemma host_no_permission_printable: "printable host_no_permission m"
  by (simp add: printable_def host_no_permission_def list_all_iff)

lemma host_agent_printable: "printable host_agent m"
  by (simp add: printable_def host_agent_def list_all_iff)

lemma host_bare_agent: "\<not> agent_succeeds host_bare fp model"
  by (simp add: host_bare_def agent_succeeds_def exits_zero_def)

lemma host_bare_agent_occ: "\<not> agent_succeeds_occ host_bare prompt"
  by (simp add: host_bare_def agent_succeeds_occ_def exits_zero_def)

lemma host_bare_passes_on: "applescript_passes_on host_bare script"
  by (simp add: host_bare_def applescript_passes_on_def)

lemma host_bare_launcher: "launcher_missing host_bare workspace"
  by (simp add: host_bare_def launcher_missing_def workspace_path_def split: option.splits)

lemma host_bare_applescript: "\<not> applescript_succeeds host_bare script fp"
  by (simp add: host_bare_def applescript_succeeds_def)

lemma host_bare_unavailable: "launcher_unavailable host_bare workspace"
  by (simp add: host_bare_def launcher_unavailable_def workspace_path_def raises_def
      split: option.splits)

lemma host_no_app_activate: "exits_nonzero host_no_app activate_cmd"
  by (simp add: host_no_app_def exits_nonzero_def activate_cmd_def)

lemma host_no_app_agent: "\<not> agent_succeeds host_no_app fp model"
  by (simp add: host_no_app_def agent_succeeds_def exits_zero_def agent_cmd_def)

lemma host_no_app_agent_occ: "\<not> agent_succeeds_occ host_no_app prompt"
  by (simp add: host_no_app_def agent_succeeds_occ_def exits_zero_def agent_cmd_occ_def)

lemma host_no_permission_activate: "exits_zero host_no_permission activate_cmd"
  by (simp add: host_no_permission_def exits_zero_def)

lemma host_no_permission_chat:
  "script \<noteq> activate_script \<Longrightarrow> permission_denied host_no_permission (chat_cmd script)"
  by (simp add: host_no_permission_def permission_denied_def chat_cmd_def activate_cmd_def
      permission_error_def)

lemma host_no_permission_agent: "raises host_no_permission (agent_cmd fp model)"
  by (simp add: host_no_permission_def raises_def agent_cmd_def activate_cmd_def)

lemma host_no_permission_agent_occ: "raises host_no_permission (agent_cmd_occ prompt)"
  by (simp add: host_no_permission_def raises_def agent_cmd_occ_def activate_cmd_def)

lemma raises_not_zero: "raises e cmd \<Longrightarrow> \<not> exits_zero e cmd"
  by (simp add: raises_def exits_zero_def split: sum.splits)

lemma host_no_permission_launcher: "launcher_missing host_no_permission None"
  by (simp add: host_no_permission_def launcher_missing_def workspace_path_def launch_cmd_def
      activate_cmd_def)

section \<open>Failures of the dispatcher\<close>

text \<open>
  C6. On macOS, when the first block has not returned and the activation of the application
  exits with a status other than zero, the dispatcher fails at once: after the attempt of
  \<^verbatim>\<open>cursor-agent\<close>, if there was one, it runs the activation, prints one line and returns
  \<^verbatim>\<open>False\<close>. When that line cannot be printed, the line of the handler cannot either, and
  the \<^verbatim>\<open>UnicodeEncodeError\<close> leaves the dispatcher in place of the return. In both cases
  neither the chat script nor the launcher is run. This holds for both scripts.
\<close>

theorem activation_failure_stops:
  assumes "sys_platform e = ''darwin''" and "exits_nonzero e activate_cmd"
  shows "(\<not> agent_succeeds e (full_prompt prompt model) model
            \<and> printable e Could_not_activate \<longrightarrow>
            open_cursor_chat_hybrid e prompt workspace model =
              (agent_attempt (full_prompt prompt model) model
                 @ [Run activate_cmd, Print Could_not_activate], Inr False))
         \<and> (\<not> agent_succeeds e (full_prompt prompt model) model
            \<and> \<not> printable e Could_not_activate \<longrightarrow>
            open_cursor_chat_hybrid e prompt workspace model =
              (agent_attempt (full_prompt prompt model) model @ [Run activate_cmd],
               Inl UnicodeEncodeError))
         \<and> (\<not> agent_succeeds_occ e prompt \<and> printable e Could_not_activate \<longrightarrow>
            open_cursor_chat_hybrid_occ e prompt workspace =
              (agent_attempt_occ prompt @ [Run activate_cmd, Print Could_not_activate],
               Inr False))
         \<and> (\<not> agent_succeeds_occ e prompt \<and> \<not> printable e Could_not_activate \<longrightarrow>
            open_cursor_chat_hybrid_occ e prompt workspace =
              (agent_attempt_occ prompt @ [Run activate_cmd], Inl UnicodeEncodeError))"
  using assms by (simp add: hybrid_failure hybrid_occ_failure fallbacks_activation_fails)

theorem activation_failure_stops_witness:
  "sys_platform host_no_app = ''darwin'' \<and> exits_nonzero host_no_app activate_cmd
   \<and> \<not> agent_succeeds host_no_app (full_prompt (Some ''hi'') None) None
   \<and> \<not> agent_succeeds_occ host_no_app (Some ''hi'')
   \<and> printable host_no_app Could_not_activate
   \<and> open_cursor_chat_hybrid host_no_app (Some ''hi'') None None =
       ([Run [''cursor-agent'', ''-p'', ''hi''], Run activate_cmd, Print Could_not_activate],
        Inr False)
   \<and> open_cursor_chat_hybrid_occ host_no_app (Some ''hi'') None =
       ([Run [''cursor-agent'', ''-p'', ''hi''], Run activate_cmd, Print Could_not_activate],
        Inr False)"
proof -
  have d: "sys_platform host_no_app = ''darwin''" by (simp add: host_no_app_def)
  have a: "\<not> agent_succeeds host_no_app (full_prompt (Some ''hi'') None) None"
    by (rule host_no_app_agent)
  have b: "\<not> agent_succeeds_occ host_no_app (Some ''hi'')"
    by (rule host_no_app_agent_occ)
  have p: "printable host_no_app Could_not_activate"
    by (rule host_no_app_printable)
  have t: "agent_attempt (full_prompt (Some ''hi'') None) None = [Run [''cursor-agent'', ''-p'', ''hi'']]"
    by (simp add: agent_attempt_def full_prompt_def agent_cmd_def)
  have u: "agent_attempt_occ (Some ''hi'') = [Run [''cursor-agent'', ''-p'', ''hi'']]"
    by (simp add: agent_attempt_occ_def agent_cmd_occ_def)
  show ?thesis
    using d a b p t u host_no_app_activate
      activation_failure_stops [OF d host_no_app_activate, of "Some ''hi''" None None]
    by simp
qed

text \<open>
  On a Mac where the application does not activate the dispatcher returns \<^verbatim>\<open>False\<close>
  although the launcher is installed and would have succeeded: the failed activation is not
  passed over, and a missing launcher is not the only cause of failure.
\<close>

theorem activation_failure_counterexample:
  "open_cursor_chat_hybrid host_no_app None None None =
     ([Run activate_cmd, Print Could_not_activate], Inr False)
   \<and> exits_nonzero host_no_app activate_cmd
   \<and> \<not> launcher_missing host_no_app None
   \<and> snd (last_resort host_no_app None None) = Inr True"
proof -
  have d: "sys_platform host_no_app = ''darwin''" by (simp add: host_no_app_def)
  have "open_cursor_chat_hybrid host_no_app None None None =
     ([Run activate_cmd, Print Could_not_activate], Inr False)"
    by (simp add: hybrid_failure host_no_app_agent fallbacks_activation_fails d
        host_no_app_activate host_no_app_printable agent_attempt_def full_prompt_def)
  moreover have "\<not> launcher_missing host_no_app None"
    by (simp add: launcher_missing_def workspace_path_def host_no_app_def launch_cmd_def)
  moreover have "snd (last_resort host_no_app None None) = Inr True"
    by (simp add: last_resort_def workspace_path_def launch_cmd_def host_no_app_def
        opened_lines_def printable_def)
  ultimately show ?thesis
    using host_no_app_activate by simp
qed

text \<open>
  C5, amended. On a host whose standard output encodes every line: every failure of
  \<^verbatim>\<open>cursor-agent\<close> is passed over, and on macOS the activation is run next. When the second
  block hands over to the last one (off macOS, after an exception of \<^verbatim>\<open>osascript\<close>, or
  after a failure of the chat script without the permission marker), the launcher is started
  with the workspace path, and the dispatcher returns \<^verbatim>\<open>True\<close> when the launcher runs,
  \<^verbatim>\<open>False\<close> when it raises \<^verbatim>\<open>FileNotFoundError\<close>, and lets any other exception through;
  without a workspace and with \<^verbatim>\<open>Path.cwd()\<close> raising, that exception leaves the dispatcher
  and no launcher is started. The dispatcher returns \<^verbatim>\<open>False\<close> in exactly two situations,
  in both of which the first block has not returned: on macOS the activation exits with a
  status other than zero; or the second block hands over and the launcher raises
  \<^verbatim>\<open>FileNotFoundError\<close>. This holds for both scripts.
\<close>

theorem hybrid_failure_conditions:
  assumes enc: "\<And>g. stdout_encodes e g" and enc_char: "\<And>c. stdout_encodes_char e c"
  shows "(sys_platform e = ''darwin'' \<and> \<not> agent_succeeds e (full_prompt prompt model) model \<longrightarrow>
      Run activate_cmd \<in> set (fst (open_cursor_chat_hybrid e prompt workspace model)))
   \<and> (\<not> agent_succeeds e (full_prompt prompt model) model
        \<and> applescript_passes_on e (chat_script (full_prompt prompt model))
        \<and> workspace_path e workspace = Inr wp \<longrightarrow>
      Run (launch_cmd wp) \<in> set (fst (open_cursor_chat_hybrid e prompt workspace model))
      \<and> snd (open_cursor_chat_hybrid e prompt workspace model) = launch_outcome e (launch_cmd wp))
   \<and> (\<not> agent_succeeds e (full_prompt prompt model) model
        \<and> applescript_passes_on e (chat_script (full_prompt prompt model))
        \<and> workspace_path e workspace = Inl x \<longrightarrow>
      snd (open_cursor_chat_hybrid e prompt workspace model) = Inl x
      \<and> (\<forall>cmd \<in> set (commands (fst (open_cursor_chat_hybrid e prompt workspace model))).
            hd cmd \<noteq> ''cursor''))
   \<and> (snd (open_cursor_chat_hybrid e prompt workspace model) = Inr False \<longleftrightarrow>
      \<not> agent_succeeds e (full_prompt prompt model) model
      \<and> ((sys_platform e = ''darwin'' \<and> exits_nonzero e activate_cmd)
          \<or> (applescript_passes_on e (chat_script (full_prompt prompt model))
              \<and> launcher_missing e workspace)))
   \<and> (sys_platform e = ''darwin'' \<and> \<not> agent_succeeds_occ e prompt \<longrightarrow>
      Run activate_cmd \<in> set (fst (open_cursor_chat_hybrid_occ e prompt workspace)))
   \<and> (\<not> agent_succeeds_occ e prompt \<and> applescript_passes_on e (chat_script_occ prompt)
        \<and> workspace_path e workspace = Inr wp \<longrightarrow>
      Run (launch_cmd wp) \<in> set (fst (open_cursor_chat_hybrid_occ e prompt workspace))
      \<and> snd (open_cursor_chat_hybrid_occ e prompt workspace) = launch_outcome e (launch_cmd wp))
   \<and> (\<not> agent_succeeds_occ e prompt \<and> applescript_passes_on e (chat_script_occ prompt)
        \<and> workspace_path e workspace = Inl x \<longrightarrow>
      snd (open_cursor_chat_hybrid_occ e prompt workspace) = Inl x
      \<and> (\<forall>cmd \<in> set (commands (fst (open_cursor_chat_hybrid_occ e prompt workspace))).
            hd cmd \<noteq> ''cursor''))
   \<and> (snd (open_cursor_chat_hybrid_occ e prompt workspace) = Inr False \<longleftrightarrow>
      \<not> agent_succeeds_occ e prompt
      \<and> ((sys_platform e = ''darwin'' \<and> exits_nonzero e activate_cmd)
          \<or> (applescript_passes_on e (chat_script_occ prompt) \<and> launcher_missing e workspace)))"
proof -
  have ap: "printable e m" for m
    using enc enc_char by (rule printable_total)
  have agent_cmd_hd: "hd c \<noteq> ''cursor''"
    if "c \<in> set (commands (agent_attempt (full_prompt prompt model) model))" for c
    using that by (simp add: agent_attempt_def agent_cmd_def split: if_splits)
  have agent_cmd_occ_hd: "hd c \<noteq> ''cursor''"
    if "c \<in> set (commands (agent_attempt_occ prompt))" for c
    using that by (simp add: agent_attempt_occ_def agent_cmd_occ_def split: if_splits)
  have no_launch: "snd (fallbacks e script workspace fp) = Inl x
      \<and> (\<forall>c \<in> set (commands (fst (fallbacks e script workspace fp))). hd c \<noteq> ''cursor'')"
    if p: "applescript_passes_on e script" and w: "workspace_path e workspace = Inl x"
    for script fp
  proof -
    from p have n: "snd (applescript_state e script fp) = None"
      by (simp add: applescript_state_None_printing [OF ap])
    have l: "last_resort e workspace fp = ([], Inl x)"
      using w by (simp add: last_resort_def)
    have "fallbacks e script workspace fp = (fst (applescript_state e script fp), Inl x)"
      using fallbacks_passed_on [OF n, of workspace] l by simp
    then show ?thesis
      using applescript_state_commands [of _ e script fp] by auto
  qed
  show ?thesis
  proof (intro conjI impI)
    assume "sys_platform e = ''darwin'' \<and> \<not> agent_succeeds e (full_prompt prompt model) model"
    then show "Run activate_cmd \<in> set (fst (open_cursor_chat_hybrid e prompt workspace model))"
      by (simp add: hybrid_failure fallbacks_activates)
  next
    assume h: "\<not> agent_succeeds e (full_prompt prompt model) model
        \<and> applescript_passes_on e (chat_script (full_prompt prompt model))
        \<and> workspace_path e workspace = Inr wp"
    then show "Run (launch_cmd wp) \<in> set (fst (open_cursor_chat_hybrid e prompt workspace model))"
      using fallbacks_launch_printing [OF ap, of "chat_script (full_prompt prompt model)"
          workspace wp "full_prompt prompt model"]
      by (simp add: hybrid_failure)
    from h show "snd (open_cursor_chat_hybrid e prompt workspace model)
        = launch_outcome e (launch_cmd wp)"
      using fallbacks_launch_printing [OF ap, of "chat_script (full_prompt prompt model)"
          workspace wp "full_prompt prompt model"]
      by (simp add: hybrid_failure)
  next
    assume h: "\<not> agent_succeeds e (full_prompt prompt model) model
        \<and> applescript_passes_on e (chat_script (full_prompt prompt model))
        \<and> workspace_path e workspace = Inl x"
    then show "snd (open_cursor_chat_hybrid e prompt workspace model) = Inl x"
      using no_launch [of "chat_script (full_prompt prompt model)" "full_prompt prompt model"]
      by (simp add: hybrid_failure)
    from h show "\<forall>cmd \<in> set (commands (fst (open_cursor_chat_hybrid e prompt workspace model))).
        hd cmd \<noteq> ''cursor''"
      using no_launch [of "chat_script (full_prompt prompt model)" "full_prompt prompt model"]
        agent_cmd_hd
      by (auto simp: hybrid_failure commands_append)
  next
    show "snd (open_cursor_chat_hybrid e prompt workspace model) = Inr False \<longleftrightarrow>
      \<not> agent_succeeds e (full_prompt prompt model) model
      \<and> ((sys_platform e = ''darwin'' \<and> exits_nonzero e activate_cmd)
          \<or> (applescript_passes_on e (chat_script (full_prompt prompt model))
              \<and> launcher_missing e workspace))"
      by (cases "agent_succeeds e (full_prompt prompt model) model")
        (simp_all add: hybrid_success hybrid_failure fallbacks_False_printing [OF ap])
  next
    assume "sys_platform e = ''darwin'' \<and> \<not> agent_succeeds_occ e prompt"
    then show "Run activate_cmd \<in> set (fst (open_cursor_chat_hybrid_occ e prompt workspace))"
      by (simp add: hybrid_occ_failure fallbacks_activates)
  next
    assume h: "\<not> agent_succeeds_occ e prompt \<and> applescript_passes_on e (chat_script_occ prompt)
        \<and> workspace_path e workspace = Inr wp"
    then show "Run (launch_cmd wp) \<in> set (fst (open_cursor_chat_hybrid_occ e prompt workspace))"
      using fallbacks_launch_printing [OF ap, of "chat_script_occ prompt" workspace wp prompt]
      by (simp add: hybrid_occ_failure)
    from h show "snd (open_cursor_chat_hybrid_occ e prompt workspace)
        = launch_outcome e (launch_cmd wp)"
      using fallbacks_launch_printing [OF ap, of "chat_script_occ prompt" workspace wp prompt]
      by (simp add: hybrid_occ_failure)
  next
    assume h: "\<not> agent_succeeds_occ e prompt \<and> applescript_passes_on e (chat_script_occ prompt)
        \<and> workspace_path e workspace = Inl x"
    then show "snd (open_cursor_chat_hybrid_occ e prompt workspace) = Inl x"
      using no_launch [of "chat_script_occ prompt" prompt] by (simp add: hybrid_occ_failure)
    from h show "\<forall>cmd \<in> set (commands (fst (open_cursor_chat_hybrid_occ e prompt workspace))).
        hd cmd \<noteq> ''cursor''"
      using no_launch [of "chat_script_occ prompt" prompt] agent_cmd_occ_hd
      by (auto simp: hybrid_occ_failure commands_append)
  next
    show "snd (open_cursor_chat_hybrid_occ e prompt workspace) = Inr False \<longleftrightarrow>
      \<not> agent_succeeds_occ e prompt
      \<and> ((sys_platform e = ''darwin'' \<and> exits_nonzero e activate_cmd)
          \<or> (applescript_passes_on e (chat_script_occ prompt) \<and> launcher_missing e workspace))"
      by (cases "agent_succeeds_occ e prompt")
        (simp_all add: hybrid_occ_success hybrid_occ_failure fallbacks_False_printing [OF ap])
  qed
qed

theorem hybrid_failure_conditions_witness:
  "\<not> agent_succeeds host_bare (full_prompt (Some ''hi'') None) None
   \<and> \<not> agent_succeeds_occ host_bare (Some ''hi'')
   \<and> applescript_passes_on host_bare (chat_script (full_prompt (Some ''hi'') None))
   \<and> applescript_passes_on host_bare (chat_script_occ (Some ''hi''))
   \<and> workspace_path host_bare None = Inr ''/work''
   \<and> launcher_missing host_bare None
   \<and> Run (launch_cmd ''/work'')
       \<in> set (fst (open_cursor_chat_hybrid host_bare (Some ''hi'') None None))
   \<and> snd (open_cursor_chat_hybrid host_bare (Some ''hi'') None None) = Inr False
   \<and> Run (launch_cmd ''/work'')
       \<in> set (fst (open_cursor_chat_hybrid_occ host_bare (Some ''hi'') None))
   \<and> snd (open_cursor_chat_hybrid_occ host_bare (Some ''hi'') None) = Inr False
   \<and> sys_platform host_no_cwd = ''darwin''
   \<and> \<not> agent_succeeds host_no_cwd (full_prompt None None) None
   \<and> \<not> agent_succeeds_occ host_no_cwd None
   \<and> applescript_passes_on host_no_cwd (chat_script (full_prompt None None))
   \<and> applescript_passes_on host_no_cwd (chat_script_occ None)
   \<and> workspace_path host_no_cwd None = Inl FileNotFoundError
   \<and> Run activate_cmd \<in> set (fst (open_cursor_chat_hybrid host_no_cwd None None None))
   \<and> snd (open_cursor_chat_hybrid host_no_cwd None None None) = Inl FileNotFoundError
   \<and> Run activate_cmd \<in> set (fst (open_cursor_chat_hybrid_occ host_no_cwd None None))
   \<and> snd (open_cursor_chat_hybrid_occ host_no_cwd None None) = Inl FileNotFoundError"
proof -
  have w: "workspace_path host_bare None = Inr ''/work''"
    by (simp add: workspace_path_def host_bare_def)
  have o: "launch_outcome host_bare (launch_cmd ''/work'') = Inr False"
    by (simp add: launch_outcome_def host_bare_def)
  have d: "sys_platform host_no_cwd = ''darwin''"
    by (simp add: host_no_cwd_def)
  have a: "\<not> agent_succeeds host_no_cwd fp model" for fp model
    by (simp add: agent_succeeds_def exits_zero_def host_no_cwd_def agent_cmd_def)
  have b: "\<not> agent_succeeds_occ host_no_cwd prompt" for prompt
    by (simp add: agent_succeeds_occ_def exits_zero_def host_no_cwd_def agent_cmd_occ_def)
  have p: "applescript_passes_on host_no_cwd script" for script
    by (simp add: applescript_passes_on_def raises_def host_no_cwd_def activate_cmd_def)
  have c: "workspace_path host_no_cwd None = Inl FileNotFoundError"
    by (simp add: workspace_path_def host_no_cwd_def)
  have bare: "stdout_encodes host_bare g" "stdout_encodes_char host_bare ch" for g ch
    by (simp_all add: host_bare_def)
  have nocwd: "stdout_encodes host_no_cwd g" "stdout_encodes_char host_no_cwd ch" for g ch
    by (simp_all add: host_no_cwd_def)
  show ?thesis
    using w o d a b p c host_bare_agent host_bare_agent_occ host_bare_passes_on
      host_bare_launcher
      hybrid_failure_conditions [of host_bare "Some ''hi''" None None "''/work''", OF bare]
      hybrid_failure_conditions [of host_no_cwd None None None _ FileNotFoundError, OF nocwd]
    by simp
qed

section \<open>The exit status\<close>

lemma exit_status_zero: "exit_status r = 0 \<longleftrightarrow> r = Inr True"
  by (cases r) simp_all

lemma exit_status_range: "exit_status r = 0 \<or> exit_status r = 1"
  by (cases r) simp_all

lemma main_exit:
  "snd (main e a) =
     exit_status (snd (open_cursor_chat_hybrid e (main_prompt (arg_prompt a) (arg_agent a))
        (arg_workspace a) (arg_model a)))"
  by (simp add: main_def split: prod.splits)

lemma main_occ_exit:
  "snd (main_occ e a) =
     exit_status (snd (open_cursor_chat_hybrid_occ e (arg_prompt_occ a) (arg_workspace_occ a)))"
  by (simp add: main_occ_def split: prod.splits)

lemma hybrid_all_fail:
  assumes "\<not> agent_succeeds e (full_prompt prompt model) model"
    and "\<not> applescript_succeeds e (chat_script (full_prompt prompt model))
          (full_prompt prompt model)"
    and "launcher_unavailable e workspace"
  shows "snd (open_cursor_chat_hybrid e prompt workspace model) \<noteq> Inr True"
  using assms fallbacks_True_cases by (auto simp: hybrid_failure)

lemma hybrid_occ_all_fail:
  assumes "\<not> agent_succeeds_occ e prompt"
    and "\<not> applescript_succeeds e (chat_script_occ prompt) prompt"
    and "launcher_unavailable e workspace"
  shows "snd (open_cursor_chat_hybrid_occ e prompt workspace) \<noteq> Inr True"
  using assms fallbacks_True_cases by (auto simp: hybrid_occ_failure)

text \<open>
  C7, amended. For parsed arguments of either script the exit status is 0 exactly when the
  dispatcher returns \<^verbatim>\<open>True\<close>, and 1 otherwise, also when an exception leaves the
  dispatcher. In particular it is 1 when the first block does not return \<^verbatim>\<open>True\<close>, the
  second block does not report success (a chat script refused with the permission marker
  counts as success) and the launcher cannot be started.
\<close>

theorem exit_code_reflects_success:
  "(snd (main e a) = 0 \<longleftrightarrow>
      snd (open_cursor_chat_hybrid e (main_prompt (arg_prompt a) (arg_agent a))
             (arg_workspace a) (arg_model a)) = Inr True)
   \<and> (snd (main e a) = 0 \<or> snd (main e a) = 1)
   \<and> (\<not> agent_succeeds e (effective_prompt a) (arg_model a)
        \<and> \<not> applescript_succeeds e (chat_script (effective_prompt a)) (effective_prompt a)
        \<and> launcher_unavailable e (arg_workspace a) \<longrightarrow> snd (main e a) = 1)
   \<and> (snd (main_occ e b) = 0 \<longleftrightarrow>
      snd (open_cursor_chat_hybrid_occ e (arg_prompt_occ b) (arg_workspace_occ b)) = Inr True)
   \<and> (snd (main_occ e b) = 0 \<or> snd (main_occ e b) = 1)
   \<and> (\<not> agent_succeeds_occ e (arg_prompt_occ b)
        \<and> \<not> applescript_succeeds e (chat_script_occ (arg_prompt_occ b)) (arg_prompt_occ b)
        \<and> launcher_unavailable e (arg_workspace_occ b) \<longrightarrow> snd (main_occ e b) = 1)"
proof (intro conjI impI)
  show "snd (main e a) = 0 \<longleftrightarrow>
      snd (open_cursor_chat_hybrid e (main_prompt (arg_prompt a) (arg_agent a))
             (arg_workspace a) (arg_model a)) = Inr True"
    by (simp only: main_exit exit_status_zero)
  show "snd (main e a) = 0 \<or> snd (main e a) = 1"
    by (simp only: main_exit exit_status_range)
  show "snd (main_occ e b) = 0 \<longleftrightarrow>
      snd (open_cursor_chat_hybrid_occ e (arg_prompt_occ b) (arg_workspace_occ b)) = Inr True"
    by (simp only: main_occ_exit exit_status_zero)
  show "snd (main_occ e b) = 0 \<or> snd (main_occ e b) = 1"
    by (simp only: main_occ_exit exit_status_range)
next
  assume h: "\<not> agent_succeeds e (effective_prompt a) (arg_model a)
        \<and> \<not> applescript_succeeds e (chat_script (effective_prompt a)) (effective_prompt a)
        \<and> launcher_unavailable e (arg_workspace a)"
  then have "snd (open_cursor_chat_hybrid e (main_prompt (arg_prompt a) (arg_agent a))
             (arg_workspace a) (arg_model a)) \<noteq> Inr True"
    unfolding effective_prompt_def by (intro hybrid_all_fail) simp_all
  then have "snd (main e a) \<noteq> 0"
    by (simp only: main_exit exit_status_zero not_False_eq_True)
  then show "snd (main e a) = 1"
    using exit_status_range [of "snd (open_cursor_chat_hybrid e
      (main_prompt (arg_prompt a) (arg_agent a)) (arg_workspace a) (arg_model a))"]
    by (simp only: main_exit) blast
next
  assume h: "\<not> agent_succeeds_occ e (arg_prompt_occ b)
        \<and> \<not> applescript_succeeds e (chat_script_occ (arg_prompt_occ b)) (arg_prompt_occ b)
        \<and> launcher_unavailable e (arg_workspace_occ b)"
  then have "snd (open_cursor_chat_hybrid_occ e (arg_prompt_occ b) (arg_workspace_occ b))
      \<noteq> Inr True"
    by (intro hybrid_occ_all_fail) simp_all
  then have "snd (main_occ e b) \<noteq> 0"
    by (simp only: main_occ_exit exit_status_zero not_False_eq_True)
  then show "snd (main_occ e b) = 1"
    using exit_status_range [of "snd (open_cursor_chat_hybrid_occ e (arg_prompt_occ b)
      (arg_workspace_occ b))"]
    by (simp only: main_occ_exit) blast
qed

theorem exit_code_reflects_success_witness:
  "\<not> agent_succeeds host_bare (effective_prompt swe_args) (arg_model swe_args)
   \<and> \<not> applescript_succeeds host_bare (chat_script (effective_prompt swe_args))
         (effective_prompt swe_args)
   \<and> launcher_unavailable host_bare (arg_workspace swe_args)
   \<and> snd (main host_bare swe_args) = 1
   \<and> \<not> agent_succeeds_occ host_bare (arg_prompt_occ hi_args_occ)
   \<and> \<not> applescript_succeeds host_bare (chat_script_occ (arg_prompt_occ hi_args_occ))
         (arg_prompt_occ hi_args_occ)
   \<and> launcher_unavailable host_bare (arg_workspace_occ hi_args_occ)
   \<and> snd (main_occ host_bare hi_args_occ) = 1"
  using host_bare_agent host_bare_agent_occ host_bare_applescript host_bare_unavailable
    exit_code_reflects_success [of host_bare swe_args hi_args_occ]
  by blast

section \<open>The permission error\<close>

lemma applescript_state_permission:
  assumes "sys_platform e = ''darwin''" and "exits_zero e activate_cmd"
    and "permission_denied e (chat_cmd script)"
    and "list_all (printable e) (permission_guidance fp)"
  shows "applescript_state e script fp =
       ([Run activate_cmd, Sleep, Run (chat_cmd script)] @ map Print (permission_guidance fp),
        Some (Inr True))"
  using assms by (simp add: applescript_state_def applescript_try_permission printed_ok)

lemma fallbacks_permission:
  assumes "sys_platform e = ''darwin''" and "exits_zero e activate_cmd"
    and "permission_denied e (chat_cmd script)"
    and "list_all (printable e) (permission_guidance fp)"
  shows "fallbacks e script workspace fp =
       ([Run activate_cmd, Sleep, Run (chat_cmd script)] @ map Print (permission_guidance fp),
        Inr True)"
  using assms by (simp add: fallbacks_def applescript_state_permission)

lemma fallbacks_permission_unprintable:
  assumes "sys_platform e = ''darwin''" and "exits_zero e activate_cmd"
    and "permission_denied e (chat_cmd script)"
    and "\<not> printable e Accessibility_required"
  shows "fallbacks e script workspace fp =
       ([Run activate_cmd, Sleep, Run (chat_cmd script)], Inl UnicodeEncodeError)"
proof -
  have w: "\<not> printable e (AppleScript_raised x)" for x
    using assms(4) by (simp add: printable_def)
  have "applescript_try e script fp =
      ([Run activate_cmd, Sleep, Run (chat_cmd script)], Inl UnicodeEncodeError)"
    using assms by (simp add: applescript_try_permission permission_guidance_def)
  then show ?thesis
    using assms(1) w by (simp add: fallbacks_def applescript_state_def)
qed

text \<open>
  On a Mac without \<^verbatim>\<open>cursor-agent\<close> and without the launcher, where the keystrokes are
  refused with the permission marker, none of the three mechanisms delivers the prompt and
  the exit status is 0.
\<close>

theorem permission_exit_counterexample:
  "snd (main host_no_permission swe_args) = 0
   \<and> raises host_no_permission (agent_cmd (effective_prompt swe_args) (arg_model swe_args))
   \<and> permission_denied host_no_permission (chat_cmd (chat_script (effective_prompt swe_args)))
   \<and> launcher_missing host_no_permission (arg_workspace swe_args)"
proof -
  have d: "sys_platform host_no_permission = ''darwin''"
    by (simp add: host_no_permission_def)
  have p: "permission_denied host_no_permission (chat_cmd (chat_script (effective_prompt swe_args)))"
    by (rule host_no_permission_chat) (rule chat_script_not_activate)
  have a: "\<not> agent_succeeds host_no_permission (effective_prompt swe_args) (arg_model swe_args)"
    using host_no_permission_agent raises_not_zero by (simp add: agent_succeeds_def)
  have l: "list_all (printable host_no_permission) ms" for ms
    by (rule all_printable) (rule host_no_permission_printable)
  have "snd (open_cursor_chat_hybrid host_no_permission
      (main_prompt (arg_prompt swe_args) (arg_agent swe_args)) (arg_workspace swe_args)
      (arg_model swe_args)) = Inr True"
    using a p by (simp add: effective_prompt_def hybrid_failure
        fallbacks_permission [OF d host_no_permission_activate _ l])
  then have "snd (main host_no_permission swe_args) = 0"
    by (simp only: main_exit exit_status_zero)
  moreover have "launcher_missing host_no_permission (arg_workspace swe_args)"
    by (simp add: swe_args_def host_no_permission_launcher)
  ultimately show ?thesis
    using p host_no_permission_agent by simp
qed

text \<open>
  When the guidance can be printed, it is, and the dispatcher returns \<^verbatim>\<open>True\<close>: on macOS,
  with the first block not returned, the activation at zero and the chat script refused
  with the permission marker, the trace ends with the six lines of lines 139 to 144 and,
  with a prompt, the line of line 146.
\<close>

lemma permission_guidance_printed:
  assumes "sys_platform e = ''darwin''" and "exits_zero e activate_cmd"
    and "list_all (printable e)
          ([Accessibility_required, To_enable, Step_1, Step_2, Step_3, Alternatively]
           @ (if truthy fp then [Then_paste (fmt fp)] else []))"
  shows "(fp = full_prompt prompt model \<and> \<not> agent_succeeds e fp model
          \<and> permission_denied e (chat_cmd (chat_script fp)) \<longrightarrow>
            open_cursor_chat_hybrid e prompt workspace model =
              (agent_attempt fp model
                 @ [Run activate_cmd, Sleep, Run (chat_cmd (chat_script fp)),
                    Print Accessibility_required, Print To_enable, Print Step_1, Print Step_2,
                    Print Step_3, Print Alternatively]
                 @ (if truthy fp then [Print (Then_paste (fmt fp))] else []), Inr True))
         \<and> (fp = prompt \<and> \<not> agent_succeeds_occ e fp
          \<and> permission_denied e (chat_cmd (chat_script_occ fp)) \<longrightarrow>
            open_cursor_chat_hybrid_occ e prompt workspace =
              (agent_attempt_occ fp
                 @ [Run activate_cmd, Sleep, Run (chat_cmd (chat_script_occ fp)),
                    Print Accessibility_required, Print To_enable, Print Step_1, Print Step_2,
                    Print Step_3, Print Alternatively]
                 @ (if truthy fp then [Print (Then_paste (fmt fp))] else []), Inr True))"
proof -
  have l: "list_all (printable e) (permission_guidance fp)"
    using assms(3) by (simp add: permission_guidance_def)
  show ?thesis
    using fallbacks_permission [OF assms(1,2) _ l]
    by (auto simp: hybrid_failure hybrid_occ_failure permission_guidance_def)
qed

lemma permission_guidance_printed_example:
  "open_cursor_chat_hybrid host_no_permission (Some ''hi'') None None =
     ([Run [''cursor-agent'', ''-p'', ''hi''], Run activate_cmd, Sleep,
       Run (chat_cmd (chat_script (Some ''hi''))),
       Print Accessibility_required, Print To_enable, Print Step_1, Print Step_2,
       Print Step_3, Print Alternatively, Print (Then_paste ''hi'')], Inr True)
   \<and> open_cursor_chat_hybrid_occ host_no_permission (Some ''hi'') None =
     ([Run [''cursor-agent'', ''-p'', ''hi''], Run activate_cmd, Sleep,
       Run (chat_cmd (chat_script_occ (Some ''hi''))),
       Print Accessibility_required, Print To_enable, Print Step_1, Print Step_2,
       Print Step_3, Print Alternatively, Print (Then_paste ''hi'')], Inr True)"
proof -
  have d: "sys_platform host_no_permission = ''darwin''"
    by (simp add: host_no_permission_def)
  have l: "list_all (printable host_no_permission) ms" for ms
    by (rule all_printable) (rule host_no_permission_printable)
  have f: "full_prompt (Some ''hi'') None = Some ''hi''"
    by (simp add: full_prompt_def)
  have a: "\<not> agent_succeeds host_no_permission (Some ''hi'') None"
    using host_no_permission_agent raises_not_zero by (simp add: agent_succeeds_def)
  have b: "\<not> agent_succeeds_occ host_no_permission (Some ''hi'')"
    using host_no_permission_agent_occ raises_not_zero by (simp add: agent_succeeds_occ_def)
  have p: "permission_denied host_no_permission (chat_cmd (chat_script (Some ''hi'')))"
    by (rule host_no_permission_chat) (rule chat_script_not_activate)
  have q: "permission_denied host_no_permission (chat_cmd (chat_script_occ (Some ''hi'')))"
    by (rule host_no_permission_chat) (rule chat_script_occ_not_activate)
  show ?thesis
    using permission_guidance_printed [OF d host_no_permission_activate l,
        of "Some ''hi''" "Some ''hi''" None None] f a b p q
    by (simp add: agent_attempt_def agent_attempt_occ_def agent_cmd_def agent_cmd_occ_def)
qed

text \<open>
  C9. The claim fails on a Mac whose standard output cannot encode the warning sign: with
  \<^verbatim>\<open>cursor-agent\<close> absent, the activation at zero and the keystrokes refused with the
  permission marker, the first line of the guidance raises inside the \<^verbatim>\<open>try\<close>, the line of
  the handler raises as well, and the \<^verbatim>\<open>UnicodeEncodeError\<close> leaves the dispatcher: no line
  of the guidance is written, no success is returned, and the exit status is 1.
\<close>

theorem permission_guidance_not_printed:
  "sys_platform host_no_permission_ascii = ''darwin''
   \<and> exits_zero host_no_permission_ascii activate_cmd
   \<and> permission_denied host_no_permission_ascii (chat_cmd (chat_script (Some ''hi'')))
   \<and> permission_denied host_no_permission_ascii (chat_cmd (chat_script_occ (Some ''hi'')))
   \<and> open_cursor_chat_hybrid host_no_permission_ascii (Some ''hi'') None None =
       ([Run [''cursor-agent'', ''-p'', ''hi''], Run activate_cmd, Sleep,
         Run (chat_cmd (chat_script (Some ''hi'')))], Inl UnicodeEncodeError)
   \<and> snd (main host_no_permission_ascii hi_args) = 1
   \<and> open_cursor_chat_hybrid_occ host_no_permission_ascii (Some ''hi'') None =
       ([Run [''cursor-agent'', ''-p'', ''hi''], Run activate_cmd, Sleep,
         Run (chat_cmd (chat_script_occ (Some ''hi'')))], Inl UnicodeEncodeError)
   \<and> snd (main_occ host_no_permission_ascii hi_args_occ) = 1"
proof -
  have d: "sys_platform host_no_permission_ascii = ''darwin''"
    by (simp add: host_no_permission_ascii_def host_no_permission_def)
  have z: "exits_zero host_no_permission_ascii activate_cmd"
    by (simp add: host_no_permission_ascii_def host_no_permission_def exits_zero_def)
  have c: "permission_denied host_no_permission_ascii (chat_cmd script)"
    if "script \<noteq> activate_script" for script
    using that
    by (simp add: host_no_permission_ascii_def host_no_permission_def permission_denied_def
        chat_cmd_def activate_cmd_def permission_error_def)
  have p: "permission_denied host_no_permission_ascii (chat_cmd (chat_script (Some ''hi'')))"
    by (rule c) (rule chat_script_not_activate)
  have q: "permission_denied host_no_permission_ascii (chat_cmd (chat_script_occ (Some ''hi'')))"
    by (rule c) (rule chat_script_occ_not_activate)
  have u: "\<not> printable host_no_permission_ascii Accessibility_required"
    by (simp add: printable_def host_no_permission_ascii_def)
  have f: "full_prompt (Some ''hi'') None = Some ''hi''"
    by (simp add: full_prompt_def)
  have a: "\<not> agent_succeeds host_no_permission_ascii (Some ''hi'') None"
    by (simp add: agent_succeeds_def printable_def host_no_permission_ascii_def)
  have b: "\<not> agent_succeeds_occ host_no_permission_ascii (Some ''hi'')"
    by (simp add: agent_succeeds_occ_def printable_def host_no_permission_ascii_def)
  have r: "open_cursor_chat_hybrid host_no_permission_ascii (Some ''hi'') None None =
       ([Run [''cursor-agent'', ''-p'', ''hi''], Run activate_cmd, Sleep,
         Run (chat_cmd (chat_script (Some ''hi'')))], Inl UnicodeEncodeError)"
    using a by (simp add: hybrid_failure f fallbacks_permission_unprintable [OF d z p u]
        agent_attempt_def agent_cmd_def)
  have o: "open_cursor_chat_hybrid_occ host_no_permission_ascii (Some ''hi'') None =
       ([Run [''cursor-agent'', ''-p'', ''hi''], Run activate_cmd, Sleep,
         Run (chat_cmd (chat_script_occ (Some ''hi'')))], Inl UnicodeEncodeError)"
    using b by (simp add: hybrid_occ_failure fallbacks_permission_unprintable [OF d z q u]
        agent_attempt_occ_def agent_cmd_occ_def)
  have m: "snd (main host_no_permission_ascii hi_args) = 1"
    by (simp add: main_exit hi_args_def main_prompt_def r)
  have n: "snd (main_occ host_no_permission_ascii hi_args_occ) = 1"
    by (simp add: main_occ_exit hi_args_occ_def o)
  show ?thesis
    using d z p q r o m n by simp
qed

section \<open>The external tool\<close>

lemma agent_attempt_commands:
  "cmd \<in> set (commands (agent_attempt fp model)) \<Longrightarrow> truthy fp"
  by (simp add: agent_attempt_def split: if_splits)

lemma agent_attempt_occ_commands:
  "cmd \<in> set (commands (agent_attempt_occ prompt)) \<Longrightarrow> truthy prompt"
  by (simp add: agent_attempt_occ_def split: if_splits)

text \<open>
  The first half of C8 holds on every host: a command \<^verbatim>\<open>cursor-agent\<close> is among the
  commands of a dispatch only when the effective prompt is a non-empty string.
\<close>

lemma hybrid_agent_entered:
  assumes "cmd \<in> set (commands (fst (open_cursor_chat_hybrid e prompt workspace model)))"
    and "hd cmd = ''cursor-agent''"
  shows "truthy (full_prompt prompt model)"
proof (cases "agent_succeeds e (full_prompt prompt model) model")
  case True
  then show ?thesis by (simp add: agent_succeeds_def)
next
  case False
  with assms(1) have "cmd \<in> set (commands (agent_attempt (full_prompt prompt model) model))
    \<or> cmd \<in> set (commands (fst (fallbacks e (chat_script (full_prompt prompt model)) workspace
          (full_prompt prompt model))))"
    by (simp add: hybrid_failure commands_append)
  then show ?thesis
  proof
    assume "cmd \<in> set (commands (agent_attempt (full_prompt prompt model) model))"
    then show ?thesis by (rule agent_attempt_commands)
  next
    assume "cmd \<in> set (commands (fst (fallbacks e (chat_script (full_prompt prompt model))
      workspace (full_prompt prompt model))))"
    then have "hd cmd = ''osascript'' \<or> hd cmd = ''cursor''" by (rule fallbacks_commands)
    with assms(2) show ?thesis by simp
  qed
qed

lemma hybrid_occ_agent_entered:
  assumes "cmd \<in> set (commands (fst (open_cursor_chat_hybrid_occ e prompt workspace)))"
    and "hd cmd = ''cursor-agent''"
  shows "truthy prompt"
proof (cases "agent_succeeds_occ e prompt")
  case True
  then show ?thesis by (simp add: agent_succeeds_occ_def)
next
  case False
  with assms(1) have "cmd \<in> set (commands (agent_attempt_occ prompt))
    \<or> cmd \<in> set (commands (fst (fallbacks e (chat_script_occ prompt) workspace prompt)))"
    by (simp add: hybrid_occ_failure commands_append)
  then show ?thesis
  proof
    assume "cmd \<in> set (commands (agent_attempt_occ prompt))"
    then show ?thesis by (rule agent_attempt_occ_commands)
  next
    assume "cmd \<in> set (commands (fst (fallbacks e (chat_script_occ prompt) workspace prompt)))"
    then have "hd cmd = ''osascript'' \<or> hd cmd = ''cursor''" by (rule fallbacks_commands)
    with assms(2) show ?thesis by simp
  qed
qed

text \<open>
  The second half holds when the success line can be printed: after a zero exit of
  \<^verbatim>\<open>cursor-agent\<close> the dispatcher returns \<^verbatim>\<open>True\<close> having run that command alone.
\<close>

lemma agent_success_printed:
  assumes "printable e Opened_with_agent"
  shows "(truthy (full_prompt prompt model)
        \<and> exits_zero e (agent_cmd (full_prompt prompt model) model) \<longrightarrow>
      open_cursor_chat_hybrid e prompt workspace model =
        ([Run (agent_cmd (full_prompt prompt model) model), Print Opened_with_agent], Inr True))
   \<and> (truthy prompt \<and> exits_zero e (agent_cmd_occ prompt) \<longrightarrow>
      open_cursor_chat_hybrid_occ e prompt workspace =
        ([Run (agent_cmd_occ prompt), Print Opened_with_agent], Inr True))"
  using assms
  by (simp add: hybrid_success hybrid_occ_success agent_succeeds_def agent_succeeds_occ_def)

lemma agent_success_printed_example:
  "open_cursor_chat_hybrid host_agent (Some ''hi'') None (Some ''gpt-4'') =
     ([Run [''cursor-agent'', ''-p'', ''hi (model: gpt-4)'', ''-m'', ''gpt-4''],
       Print Opened_with_agent], Inr True)
   \<and> open_cursor_chat_hybrid_occ host_agent (Some ''hi'') None =
     ([Run [''cursor-agent'', ''-p'', ''hi''], Print Opened_with_agent], Inr True)"
proof -
  have f: "full_prompt (Some ''hi'') (Some ''gpt-4'') = Some ''hi (model: gpt-4)''"
    by (simp add: full_prompt_def)
  have z: "exits_zero host_agent cmd" for cmd
    by (simp add: host_agent_def exits_zero_def)
  show ?thesis
    using agent_success_printed [OF host_agent_printable,
        where prompt = "Some ''hi''" and model = "Some ''gpt-4''"] z
    by (simp add: f agent_cmd_def agent_cmd_occ_def)
qed

text \<open>
  C8. The claim fails on a host whose standard output cannot encode the check mark: the
  success line of line 65 (line 52 in \<^verbatim>\<open>open_cursor_chat.py\<close>) raises inside the \<^verbatim>\<open>try\<close>,
  \<^verbatim>\<open>except Exception: pass\<close> takes it for a failure of the tool, and the later blocks run
  although \<^verbatim>\<open>cursor-agent\<close> has exited with status zero. On Linux the launcher is started and
  the exit status is 1; on macOS the activation and the chat script are run.
\<close>

theorem agent_success_not_honoured:
  "truthy (full_prompt (Some ''hi'') None)
   \<and> exits_zero host_linux_ascii (agent_cmd (full_prompt (Some ''hi'') None) None)
   \<and> open_cursor_chat_hybrid host_linux_ascii (Some ''hi'') None None =
       ([Run [''cursor-agent'', ''-p'', ''hi''], Run [''cursor'', ''/work'']],
        Inl UnicodeEncodeError)
   \<and> snd (main host_linux_ascii hi_args) = 1
   \<and> exits_zero host_linux_ascii (agent_cmd_occ (Some ''hi''))
   \<and> open_cursor_chat_hybrid_occ host_linux_ascii (Some ''hi'') None =
       ([Run [''cursor-agent'', ''-p'', ''hi''], Run [''cursor'', ''/work'']],
        Inl UnicodeEncodeError)
   \<and> snd (main_occ host_linux_ascii hi_args_occ) = 1
   \<and> exits_zero host_agent_ascii (agent_cmd (full_prompt (Some ''hi'') None) None)
   \<and> open_cursor_chat_hybrid host_agent_ascii (Some ''hi'') None None =
       ([Run [''cursor-agent'', ''-p'', ''hi''], Run activate_cmd, Sleep,
         Run (chat_cmd (chat_script (Some ''hi'')))], Inl UnicodeEncodeError)
   \<and> open_cursor_chat_hybrid_occ host_agent_ascii (Some ''hi'') None =
       ([Run [''cursor-agent'', ''-p'', ''hi''], Run activate_cmd, Sleep,
         Run (chat_cmd (chat_script_occ (Some ''hi'')))], Inl UnicodeEncodeError)"
proof -
  have f: "full_prompt (Some ''hi'') None = Some ''hi''"
    by (simp add: full_prompt_def)
  have zl: "exits_zero host_linux_ascii cmd" for cmd
    by (simp add: exits_zero_def host_linux_ascii_def)
  have zm: "exits_zero host_agent_ascii cmd" for cmd
    by (simp add: exits_zero_def host_agent_ascii_def)
  have ul: "\<not> printable host_linux_ascii Opened_with_agent"
    "\<not> list_all (printable host_linux_ascii) (opened_lines (Some ''hi''))"
    "printed host_linux_ascii (opened_lines (Some ''hi'')) = []"
    by (simp_all add: printable_def host_linux_ascii_def opened_lines_def)
  have um: "\<not> printable host_agent_ascii Opened_with_agent"
    "\<not> list_all (printable host_agent_ascii) (success_lines (Some ''hi''))"
    "printed host_agent_ascii (success_lines (Some ''hi'')) = []"
    "\<not> printable host_agent_ascii (AppleScript_raised x)" for x
    by (simp_all add: printable_def host_agent_ascii_def success_lines_def)
  have al: "\<not> agent_succeeds host_linux_ascii fp model"
    "\<not> agent_succeeds_occ host_linux_ascii fp" for fp model
    using ul(1) by (simp_all add: agent_succeeds_def agent_succeeds_occ_def)
  have am: "\<not> agent_succeeds host_agent_ascii fp model"
    "\<not> agent_succeeds_occ host_agent_ascii fp" for fp model
    using um(1) by (simp_all add: agent_succeeds_def agent_succeeds_occ_def)
  have hl: "sys_platform host_linux_ascii = ''linux''"
    "workspace_path host_linux_ascii None = Inr ''/work''"
    "subprocess_run host_linux_ascii cmd = Inr (Completed 0 [])" for cmd
    by (simp_all add: host_linux_ascii_def workspace_path_def)
  have hm: "sys_platform host_agent_ascii = ''darwin''"
    by (simp add: host_agent_ascii_def)
  have fl: "fallbacks host_linux_ascii script None (Some ''hi'') =
      ([Run [''cursor'', ''/work'']], Inl UnicodeEncodeError)" for script
    by (simp add: fallbacks_def applescript_state_def last_resort_def launch_cmd_def hl ul)
  have fm: "fallbacks host_agent_ascii script None (Some ''hi'') =
      ([Run activate_cmd, Sleep, Run (chat_cmd script)], Inl UnicodeEncodeError)" for script
    by (simp add: fallbacks_def applescript_state_def applescript_try_chat_ok zm hm um)
  have rl: "open_cursor_chat_hybrid host_linux_ascii (Some ''hi'') None None =
       ([Run [''cursor-agent'', ''-p'', ''hi''], Run [''cursor'', ''/work'']],
        Inl UnicodeEncodeError)"
    by (simp add: hybrid_failure al f fl agent_attempt_def agent_cmd_def)
  have ol: "open_cursor_chat_hybrid_occ host_linux_ascii (Some ''hi'') None =
       ([Run [''cursor-agent'', ''-p'', ''hi''], Run [''cursor'', ''/work'']],
        Inl UnicodeEncodeError)"
    by (simp add: hybrid_occ_failure al fl agent_attempt_occ_def agent_cmd_occ_def)
  have rm: "open_cursor_chat_hybrid host_agent_ascii (Some ''hi'') None None =
       ([Run [''cursor-agent'', ''-p'', ''hi''], Run activate_cmd, Sleep,
         Run (chat_cmd (chat_script (Some ''hi'')))], Inl UnicodeEncodeError)"
    by (simp add: hybrid_failure am f fm agent_attempt_def agent_cmd_def)
  have om: "open_cursor_chat_hybrid_occ host_agent_ascii (Some ''hi'') None =
       ([Run [''cursor-agent'', ''-p'', ''hi''], Run activate_cmd, Sleep,
         Run (chat_cmd (chat_script_occ (Some ''hi'')))], Inl UnicodeEncodeError)"
    by (simp add: hybrid_occ_failure am fm agent_attempt_occ_def agent_cmd_occ_def)
  have m: "snd (main host_linux_ascii hi_args) = 1"
    by (simp add: main_exit hi_args_def main_prompt_def rl)
  have n: "snd (main_occ host_linux_ascii hi_args_occ) = 1"
    by (simp add: main_occ_exit hi_args_occ_def ol)
  show ?thesis
    using zl zm rl ol rm om m n by (simp add: f)
qed

end
